theory Spec2Isabelle
  imports Main
begin

section \<open>Python values and library functions used by main.py\<close>

text \<open>
  Cell texts, UANs and messages are strings of characters with code points below 256. The
  exceptions that the program can
  meet carry their message, which the f-strings of the source print with \<open>{e}\<close>.
  Every call on the Playwright page either returns or raises \<open>PlaywrightError\<close>
  (its \<open>TimeoutError\<close> is a subclass); \<open>ValueError\<close> and \<open>OverflowError\<close>
  come from \<open>int\<close>, tuple unpacking, \<open>datetime\<close> and \<open>pandas.DataFrame\<close>.
\<close>

datatype exn = PlaywrightError string | ValueError string | OverflowError string

type_synonym 'a result = "exn + 'a"

fun str_exn :: "exn \<Rightarrow> string" where
  "str_exn (PlaywrightError m) = m"
| "str_exn (ValueError m) = m"
| "str_exn (OverflowError m) = m"

subsection \<open>str.strip, str.title, str.split, the in operator\<close>

text \<open>
  \<open>str.isspace\<close> below 256: the code points 9 to 13, 28 to 32, 133 (next line) and 160
  (no-break space).
\<close>

definition is_space :: "char \<Rightarrow> bool" where
  "is_space c = ((of_char c :: nat) \<in> {9, 10, 11, 12, 13, 28, 29, 30, 31, 32, 133, 160})"

definition strip :: "string \<Rightarrow> string" where
  "strip s = rev (dropWhile is_space (rev (dropWhile is_space s)))"

definition lower_letters :: string where
  "lower_letters = ''abcdefghijklmnopqrstuvwxyz''"

definition upper_letters :: string where
  "upper_letters = ''ABCDEFGHIJKLMNOPQRSTUVWXYZ''"

definition is_cased :: "char \<Rightarrow> bool" where
  "is_cased c = (c \<in> set lower_letters \<or> c \<in> set upper_letters)"

definition to_upper :: "char \<Rightarrow> char" where
  "to_upper c = (case map_of (zip lower_letters upper_letters) c of Some u \<Rightarrow> u | None \<Rightarrow> c)"

definition to_lower :: "char \<Rightarrow> char" where
  "to_lower c = (case map_of (zip upper_letters lower_letters) c of Some l \<Rightarrow> l | None \<Rightarrow> c)"

text \<open>
  \<open>str.title\<close>: a character that follows a cased character is lower-cased, any other
  character is upper-cased; the flag is whether the previous character was cased. The
  cased characters here are the letters a to z and A to Z. The letters above 127 are left
  as they are; Python changes their case, and no string with one of them title-cases to a
  month name, there or here (the one that becomes ASCII letters, 223, becomes \<open>Ss\<close> or
  stays), so \<open>get_month_index\<close> is the same.
\<close>

fun title_from :: "bool \<Rightarrow> string \<Rightarrow> string" where
  "title_from prev [] = []"
| "title_from prev (c # cs) =
     (if prev then to_lower c else to_upper c) # title_from (is_cased c) cs"

definition title :: "string \<Rightarrow> string" where
  "title s = title_from False s"

text \<open>\<open>s.split(sep)\<close> for a one-character separator: never the empty list.\<close>

fun split :: "char \<Rightarrow> string \<Rightarrow> string list" where
  "split sep [] = [[]]"
| "split sep (c # cs) =
     (if c = sep then [] # split sep cs
      else (case split sep cs of
              [] \<Rightarrow> [[c]]
            | p # ps \<Rightarrow> (c # p) # ps))"

text \<open>\<open>sub in s\<close> on strings.\<close>

fun contains :: "string \<Rightarrow> string \<Rightarrow> bool" where
  "contains sub [] = (sub = [])"
| "contains sub (c # cs) = (take (length sub) (c # cs) = sub \<or> contains sub cs)"

subsection \<open>int, str and datetime\<close>

definition digit_chars :: string where
  "digit_chars = ''0123456789''"

definition digit_value :: "char \<Rightarrow> int option" where
  "digit_value c = map_of (zip digit_chars [0, 1, 2, 3, 4, 5, 6, 7, 8, 9]) c"

text \<open>
  The digits of an integer literal: a digit first, then digits, each optionally preceded
  by one underscore.
\<close>

fun literal_ok :: "string \<Rightarrow> bool" where
  "literal_ok [] = False"
| "literal_ok [c] = (c \<in> set digit_chars)"
| "literal_ok (c # d # cs) =
     (c \<in> set digit_chars \<and>
      (if d = CHR ''_'' then literal_ok cs else literal_ok (d # cs)))"

definition literal_value :: "string \<Rightarrow> int" where
  "literal_value s = foldl (\<lambda>a d. 10 * a + d) 0 (List.map_filter digit_value s)"

text \<open>
  The whitespace that \<open>int\<close> skips around the literal: the code points 9 to 13 and 32
  of C, and 133 and 160, which \<open>int\<close> turns into spaces before it reads the string
  (the code points 28 to 31 are not skipped).
\<close>

definition is_c_space :: "char \<Rightarrow> bool" where
  "is_c_space c = ((of_char c :: nat) \<in> {9, 10, 11, 12, 13, 32, 133, 160})"

definition max_str_digits :: nat where
  "max_str_digits = 4300"

text \<open>
  \<open>int(s)\<close> in base ten: surrounding whitespace, one optional sign, the literal.
  CPython refuses more than 4300 digits with \<open>ValueError\<close> as well. The messages
  stand without the quoted argument and the limits that CPython appends to them.
\<close>

definition int_of_str :: "string \<Rightarrow> int result" where
  "int_of_str s =
     (let t = rev (dropWhile is_c_space (rev (dropWhile is_c_space s)));
          neg = (case t of [] \<Rightarrow> False | c # cs \<Rightarrow> c = CHR ''-'');
          body = (case t of [] \<Rightarrow> []
                  | c # cs \<Rightarrow> if c = CHR ''-'' \<or> c = CHR ''+'' then cs else t)
      in if \<not> literal_ok body then Inl (ValueError ''invalid literal for int() with base 10'')
         else if max_str_digits < length (filter (\<lambda>c. c \<in> set digit_chars) body)
         then Inl (ValueError ''Exceeds the limit for integer string conversion'')
         else Inr (if neg then - literal_value body else literal_value body))"

function str_nat :: "nat \<Rightarrow> string" where
  "str_nat n = (if n < 10 then [digit_chars ! n] else str_nat (n div 10) @ [digit_chars ! (n mod 10)])"
  by pat_completeness auto
termination
  by (relation "measure (\<lambda>n. n)") auto

definition str_int :: "int \<Rightarrow> string" where
  "str_int i = (if i < 0 then CHR ''-'' # str_nat (nat (- i)) else str_nat (nat i))"

text \<open>
  How CPython passes an integer argument to a C function that takes an \<open>int\<close>
  (with a 64-bit \<open>long\<close>): \<open>OverflowError\<close> outside 32 bits.
\<close>

definition c_int :: "int \<Rightarrow> int result" where
  "c_int i =
     (if i < - 9223372036854775808 \<or> 9223372036854775807 < i
      then Inl (OverflowError ''Python int too large to convert to C long'')
      else if 2147483647 < i then Inl (OverflowError ''signed integer is greater than maximum'')
      else if i < - 2147483648 then Inl (OverflowError ''signed integer is less than minimum'')
      else Inr i)"

text \<open>
  A \<open>datetime\<close> of the program always has day 1 and time 0:00, so it is a year and a
  month, compared in that order. The constructor converts its arguments to C ints first
  (\<open>OverflowError\<close>) and then checks the year, then the month (\<open>ValueError\<close>).
\<close>

record datetime =
  year :: int
  month :: int

definition datetime_new :: "int \<Rightarrow> int \<Rightarrow> datetime result" where
  "datetime_new y m =
     (case c_int y of
        Inl e \<Rightarrow> Inl e
      | Inr y' \<Rightarrow>
     (case c_int m of
        Inl e \<Rightarrow> Inl e
      | Inr m' \<Rightarrow>
          if y' < 1 \<or> 9999 < y' then Inl (ValueError (''year '' @ str_int y' @ '' is out of range''))
          else if m' < 1 \<or> 12 < m' then Inl (ValueError ''month must be in 1..12'')
          else Inr \<lparr>year = y', month = m'\<rparr>))"

definition datetime_le :: "datetime \<Rightarrow> datetime \<Rightarrow> bool" where
  "datetime_le a b = (year a < year b \<or> (year a = year b \<and> month a \<le> month b))"

text \<open>\<open>strftime('%Y%m')\<close>: the year on four digits, the month on two.\<close>

definition zero_pad :: "nat \<Rightarrow> string \<Rightarrow> string" where
  "zero_pad w s = replicate (w - length s) (CHR ''0'') @ s"

definition strftime_Ym :: "datetime \<Rightarrow> string" where
  "strftime_Ym d = zero_pad 4 (str_nat (nat (year d))) @ zero_pad 2 (str_nat (nat (month d)))"

subsection \<open>get_month_index\<close>

definition months :: "string list" where
  "months = [''Jan'', ''Feb'', ''Mar'', ''Apr'', ''May'', ''Jun'',
             ''Jul'', ''Aug'', ''Sep'', ''Oct'', ''Nov'', ''Dec'']"

text \<open>\<open>list.index\<close>: the first position of the value, \<open>ValueError\<close> when it is absent.\<close>

fun index_of :: "'a \<Rightarrow> 'a list \<Rightarrow> exn + nat" where
  "index_of x [] = Inl (ValueError ''is not in list'')"
| "index_of x (y # ys) =
     (if x = y then Inr 0
      else (case index_of x ys of Inl e \<Rightarrow> Inl e | Inr i \<Rightarrow> Inr (Suc i)))"

definition get_month_index :: "string \<Rightarrow> int" where
  "get_month_index month_str =
     (case index_of (title month_str) months of
        Inr i \<Rightarrow> int i + 1
      | Inl e \<Rightarrow> - 1)"

section \<open>The result queue, the log and the file system\<close>

text \<open>
  A result event is the pair that the worker puts on \<open>result_queue\<close>: the tags
  \<open>'status_update'\<close>, \<open>'error'\<close>, \<open>'info'\<close>, \<open>'browser_opened'\<close> and
  \<open>'login_verified'\<close> with their payload.
\<close>

datatype result_event =
    Status_update string
  | Error string
  | Info string
  | Browser_opened
  | Login_verified bool

datatype level = ERROR | WARNING | INFO

text \<open>
  A table is what \<open>DataFrame.to_excel(path, index=False)\<close> writes: the column names
  and the rows; a cell that pandas had to fill in is \<open>None\<close>.
\<close>

type_synonym table = "string list \<times> string option list list"

datatype fs_op =
    Mkdir string
  | Save_as string
  | To_excel string table
  | Zip_open string
  | Zip_write string string
  | Remove string
  | Rmdir string

text \<open>
  The state outside the worker's own variables: the events put on the result queue, the
  lines logged and the file-system operations carried out (in order; they are taken to
  succeed).
\<close>

record world =
  result_queue :: "result_event list"
  log :: "(level \<times> string) list"
  fs :: "fs_op list"

definition put :: "result_event \<Rightarrow> world \<Rightarrow> world" where
  "put ev w = w\<lparr>result_queue := result_queue w @ [ev]\<rparr>"

definition logging :: "level \<Rightarrow> string \<Rightarrow> world \<Rightarrow> world" where
  "logging lv msg w = w\<lparr>log := log w @ [(lv, msg)]\<rparr>"

definition fs_do :: "fs_op \<Rightarrow> world \<Rightarrow> world" where
  "fs_do op w = w\<lparr>fs := fs w @ [op]\<rparr>"

text \<open>
  A call on the page, a locator or a download returns, or raises \<open>PlaywrightError\<close>
  with a message (\<open>Inl\<close>).
\<close>

type_synonym 'a pw = "string + 'a"

text \<open>
  \<open>pathlib\<close> paths (the POSIX flavour), kept as the string that \<open>str\<close> gives. A path
  is a root (nothing, \<open>/\<close>, or \<open>//\<close> for exactly two leading slashes) and its
  parts: the pieces between slashes, the empty ones and \<open>.\<close> left out. \<open>d / n\<close> is
  \<open>n\<close> when \<open>n\<close> has a root, and the parts of both otherwise; \<open>p.name\<close> is the
  last part.
\<close>

definition path_parts :: "string \<Rightarrow> string list" where
  "path_parts p = filter (\<lambda>part. part \<noteq> [] \<and> part \<noteq> ''.'') (split (CHR ''/'') p)"

definition path_root :: "string \<Rightarrow> string" where
  "path_root p =
     (if take 2 p = ''//'' \<and> take 3 p \<noteq> ''///'' then ''//''
      else if take 1 p = ''/'' then ''/''
      else [])"

fun path_str :: "string list \<Rightarrow> string" where
  "path_str [] = []"
| "path_str [part] = part"
| "path_str (part # parts) = part @ ''/'' @ path_str parts"

definition path_join :: "string \<Rightarrow> string \<Rightarrow> string" where
  "path_join d n =
     (if path_root n \<noteq> [] then path_root n @ path_str (path_parts n)
      else if path_root d = [] \<and> path_parts d @ path_parts n = [] then ''.''
      else path_root d @ path_str (path_parts d @ path_parts n))"

definition path_name :: "string \<Rightarrow> string" where
  "path_name p = (case path_parts p of [] \<Rightarrow> [] | part # parts \<Rightarrow> last (part # parts))"

text \<open>
  Archiving, as both protocols do it: open the archive, then for each file write it under
  its base name and remove the original.
\<close>

definition zip_all :: "string \<Rightarrow> string list \<Rightarrow> world \<Rightarrow> world" where
  "zip_all zip_filename files w =
     foldl (\<lambda>w f. fs_do (Remove f) (fs_do (Zip_write zip_filename (path_name f)) w))
       (fs_do (Zip_open zip_filename) w) files"

section \<open>run_ecr_extraction\<close>

text \<open>
  What the browser answers for one row of \<open>table#tbRecentClaimList\<close>: the inner text
  of the cells 3, 8 and 2, the number of links in cell 10, and the outcome of the
  download (click, wait for the download, save).
\<close>

record ecr_row =
  wage_month_cell :: "string pw"
  status_cell :: "string pw"
  trrn_cell :: "string pw"
  pdf_link_count :: "nat pw"
  download :: "unit pw"

text \<open>
  The two lines that read the wage month: the text is split at \<open>-\<close> into exactly a
  month name and a year (\<open>ValueError\<close> otherwise), and the date is the first day of
  that month.
\<close>

definition wage_date_of :: "string \<Rightarrow> datetime result" where
  "wage_date_of wage_month_str =
     (case split (CHR ''-'') wage_month_str of
        [month_str, year_str] \<Rightarrow>
          (case int_of_str year_str of
             Inl e \<Rightarrow> Inl e
           | Inr y \<Rightarrow> datetime_new y (get_month_index month_str))
      | parts \<Rightarrow> Inl (ValueError ''wrong number of values to unpack''))"

text \<open>
  The body of the \<open>try\<close> of one row. The state is \<open>downloaded_files\<close> and the world;
  \<open>Inl e\<close> is the exception the body raised.
\<close>

definition ecr_row_try ::
  "datetime \<Rightarrow> datetime \<Rightarrow> ecr_row \<Rightarrow> string list \<times> world \<Rightarrow> unit result \<times> string list \<times> world" where
  "ecr_row_try start_date end_date row st =
     (case st of (downloaded_files, w) \<Rightarrow>
      (case wage_month_cell row of
         Inl m \<Rightarrow> (Inl (PlaywrightError m), st)
       | Inr wage_month_str \<Rightarrow>
      (case status_cell row of
         Inl m \<Rightarrow> (Inl (PlaywrightError m), st)
       | Inr status_text \<Rightarrow>
      if strip status_text = ''Payment Confirmed'' then
        (case wage_date_of wage_month_str of
           Inl e \<Rightarrow> (Inl e, st)
         | Inr wage_date \<Rightarrow>
        if datetime_le start_date wage_date \<and> datetime_le wage_date end_date then
          (case trrn_cell row of
             Inl m \<Rightarrow> (Inl (PlaywrightError m), st)
           | Inr trrn_text \<Rightarrow>
               let trrn = strip trrn_text;
                   w1 = put (Status_update (''Downloading PDF for '' @ trrn @ ''...'')) w
               in (case pdf_link_count row of
                     Inl m \<Rightarrow> (Inl (PlaywrightError m), downloaded_files, w1)
                   | Inr n \<Rightarrow>
                       if 0 < n then
                         (case download row of
                            Inl m \<Rightarrow> (Inl (PlaywrightError m), downloaded_files, w1)
                          | Inr u \<Rightarrow>
                              let file_path = path_join ''ecr_downloads''
                                    (trrn @ ''_'' @ wage_month_str @ ''.pdf'')
                              in (Inr (), downloaded_files @ [file_path],
                                  fs_do (Save_as file_path) w1))
                       else (Inr (), downloaded_files, w1)))
        else (Inr (), st))
      else (Inr (), st))))"

text \<open>
  The \<open>try\<close> with its handler \<open>except (PlaywrightError, ValueError)\<close>: these two are
  logged and the row is over; any other exception leaves the function.
\<close>

definition ecr_row_step ::
  "datetime \<Rightarrow> datetime \<Rightarrow> ecr_row \<Rightarrow> string list \<times> world \<Rightarrow> unit result \<times> string list \<times> world" where
  "ecr_row_step start_date end_date row st =
     (case ecr_row_try start_date end_date row st of
        (Inr u, st') \<Rightarrow> (Inr (), st')
      | (Inl e, downloaded_files, w) \<Rightarrow>
          (case e of
             PlaywrightError m \<Rightarrow>
               (Inr (), downloaded_files, logging ERROR (''Error processing a row: '' @ m) w)
           | ValueError m \<Rightarrow>
               (Inr (), downloaded_files, logging ERROR (''Error processing a row: '' @ m) w)
           | OverflowError m \<Rightarrow> (Inl e, downloaded_files, w)))"

text \<open>\<open>for row in rows\<close>.\<close>

fun ecr_rows ::
  "datetime \<Rightarrow> datetime \<Rightarrow> ecr_row list \<Rightarrow> string list \<times> world \<Rightarrow> unit result \<times> string list \<times> world" where
  "ecr_rows start_date end_date [] st = (Inr (), st)"
| "ecr_rows start_date end_date (row # rows) st =
     (case ecr_row_step start_date end_date row st of
        (Inl e, st') \<Rightarrow> (Inl e, st')
      | (Inr u, st') \<Rightarrow> ecr_rows start_date end_date rows st')"

text \<open>
  One result page: the settle delay, the rows found, whether a Next link is visible and
  the outcome of clicking it.
\<close>

record ecr_page =
  settle :: "unit pw"
  table_rows :: "ecr_row list pw"
  next_visible :: "bool pw"
  next_click :: "unit pw"

text \<open>
  The \<open>while True\<close> over the result pages; \<open>pages i\<close> is what the browser shows at the
  i-th iteration. The loop has no bound of its own: \<open>None\<close> is a run that never leaves it.
\<close>

partial_function (option) ecr_pages ::
  "datetime \<Rightarrow> datetime \<Rightarrow> (nat \<Rightarrow> ecr_page) \<Rightarrow> nat \<Rightarrow> string list \<times> world
     \<Rightarrow> (unit result \<times> string list \<times> world) option" where
  "ecr_pages start_date end_date pages i st =
     (case settle (pages i) of
        Inl m \<Rightarrow> Some (Inl (PlaywrightError m), st)
      | Inr u \<Rightarrow>
     (case table_rows (pages i) of
        Inl m \<Rightarrow> Some (Inl (PlaywrightError m), st)
      | Inr rows \<Rightarrow>
     (case ecr_rows start_date end_date rows st of
        (Inl e, st') \<Rightarrow> Some (Inl e, st')
      | (Inr u, st') \<Rightarrow>
     (case next_visible (pages i) of
        Inl m \<Rightarrow> Some (Inl (PlaywrightError m), st')
      | Inr visible \<Rightarrow>
          if \<not> visible then Some (Inr (), st')
          else (case next_click (pages i) of
                  Inl m \<Rightarrow> Some (Inl (PlaywrightError m), st')
                | Inr u \<Rightarrow> ecr_pages start_date end_date pages (Suc i) st')))))"

declare ecr_pages.simps [code]

record ecr_site =
  ecr_nav :: "unit pw"
  ecr_result_pages :: "nat \<Rightarrow> ecr_page"

text \<open>
  The whole task. \<open>ecr_nav\<close> is the outcome of the four clicks and waits of the first
  \<open>try\<close>. The result is the exception that leaves the function, if any, and the world.
\<close>

definition run_ecr_extraction ::
  "ecr_site \<Rightarrow> datetime \<Rightarrow> datetime \<Rightarrow> world \<Rightarrow> (unit result \<times> world) option" where
  "run_ecr_extraction site start_date end_date w0 =
     (let w1 = put (Status_update ''Starting ECR PDF extraction...'') w0 in
      case ecr_nav site of
        Inl m \<Rightarrow> Some (Inr (), put (Error (''Could not navigate to ECR page: '' @ m)) w1)
      | Inr u \<Rightarrow>
          (case ecr_pages start_date end_date (ecr_result_pages site) 0
                  ([], fs_do (Mkdir ''ecr_downloads'') w1) of
             None \<Rightarrow> None
           | Some (Inl e, downloaded_files, w2) \<Rightarrow> Some (Inl e, w2)
           | Some (Inr u, downloaded_files, w2) \<Rightarrow>
               let zip_filename = ''ECR_Statements_'' @ strftime_Ym start_date @ ''_to_''
                                    @ strftime_Ym end_date @ ''.zip'';
                   w3 = (if downloaded_files \<noteq> []
                         then put (Info (''ECR PDFs zipped to '' @ zip_filename))
                                (zip_all zip_filename downloaded_files w2)
                         else put (Info ''No matching ECR statements found.'') w2)
               in Some (Inr (), put (Status_update ''ECR extraction finished.'') w3)))"

section \<open>run_uan_extraction\<close>

text \<open>
  What the browser answers for one search: the outcome of filling the search field,
  pressing Enter and waiting, then the inner text of the cells 2, 6 and 7 of the first
  row of \<open>#memberList\<close>.
\<close>

record uan_lookup =
  search :: "unit pw"
  name_cell :: "string pw"
  joining_cell :: "string pw"
  exit_cell :: "string pw"

text \<open>
  A record is the dict \<open>{"UAN": .., "Name": .., "Joining Date": .., "Exit Date": ..}\<close>,
  kept as the values in the order of the keys.
\<close>

type_synonym uan_record = "string list"

definition uan_columns :: "string list" where
  "uan_columns = [''UAN'', ''Name'', ''Joining Date'', ''Exit Date'']"

text \<open>The body of the \<open>try\<close> of one UAN: the record, or the error raised.\<close>

definition uan_try :: "string \<Rightarrow> uan_lookup \<Rightarrow> uan_record pw" where
  "uan_try uan lk =
     (case search lk of
        Inl m \<Rightarrow> Inl m
      | Inr u \<Rightarrow>
     (case name_cell lk of
        Inl m \<Rightarrow> Inl m
      | Inr name_text \<Rightarrow>
     (case joining_cell lk of
        Inl m \<Rightarrow> Inl m
      | Inr joining_text \<Rightarrow>
     (case exit_cell lk of
        Inl m \<Rightarrow> Inl m
      | Inr exit_text \<Rightarrow> Inr [uan, strip name_text, strip joining_text, strip exit_text]))))"

text \<open>
  \<open>for uan in uans\<close>; \<open>lookups i\<close> is what the browser answers to the i-th search.
  The state is \<open>all_uan_data\<close> and the world.
\<close>

fun uan_loop ::
  "(nat \<Rightarrow> uan_lookup) \<Rightarrow> nat \<Rightarrow> string list \<Rightarrow> uan_record list \<times> world \<Rightarrow> uan_record list \<times> world" where
  "uan_loop lookups i [] st = st"
| "uan_loop lookups i (uan # uans) (all_uan_data, w) =
     (let w1 = put (Status_update (''Extracting data for UAN: '' @ uan @ ''...'')) w in
      case uan_try uan (lookups i) of
        Inr r \<Rightarrow> uan_loop lookups (Suc i) uans (all_uan_data @ [r], w1)
      | Inl m \<Rightarrow>
          uan_loop lookups (Suc i) uans
            (all_uan_data,
             logging ERROR (''Could not extract all data for UAN '' @ uan @ '': '' @ m) w1))"

record uan_site =
  uan_nav :: "unit pw"
  uan_lookups :: "nat \<Rightarrow> uan_lookup"

text \<open>
  \<open>pd.DataFrame(all_uan_data)\<close> of a non-empty list of dicts with the same keys: the
  keys as columns, a row per dict.
\<close>

definition uan_frame :: "uan_record list \<Rightarrow> table" where
  "uan_frame all_uan_data = (uan_columns, map (map Some) all_uan_data)"

definition run_uan_extraction ::
  "uan_site \<Rightarrow> string list \<Rightarrow> string \<Rightarrow> world \<Rightarrow> unit result \<times> world" where
  "run_uan_extraction site uans output_file w0 =
     (let w1 = put (Status_update ''Starting UAN extraction...'') w0 in
      case uan_nav site of
        Inl m \<Rightarrow>
          (Inr (), put (Error (''Could not navigate to 'Member Profile': '' @ m)) w1)
      | Inr u \<Rightarrow>
          (case uan_loop (uan_lookups site) 0 uans ([], w1) of
             (all_uan_data, w2) \<Rightarrow>
               let w3 = (if all_uan_data \<noteq> []
                         then put (Info (''UAN data extracted and saved to '' @ output_file))
                                (fs_do (To_excel output_file (uan_frame all_uan_data)) w2)
                         else put (Info ''No UAN data was extracted.'') w2)
               in (Inr (), put (Status_update ''UAN extraction finished.'') w3)))"

section \<open>run_msd_extraction\<close>

text \<open>
  The header line: the texts of the header cells, stripped, the blank ones left out, then
  the first one left out.
\<close>

definition msd_headers :: "string list \<Rightarrow> string list" where
  "msd_headers header_texts = drop 1 (map strip (filter (\<lambda>h. strip h \<noteq> []) header_texts))"

text \<open>
  A body row is the list of its cells (or the error of \<open>row.locator("td").all()\<close>), a
  cell the outcome of \<open>inner_text()\<close> on it.
\<close>

type_synonym msd_row = "string pw list pw"

text \<open>\<open>[cell.inner_text() for cell in cells]\<close>: the texts, or the first error.\<close>

fun inner_texts :: "string pw list \<Rightarrow> string list pw" where
  "inner_texts [] = Inr []"
| "inner_texts (c # cs) =
     (case c of
        Inl m \<Rightarrow> Inl m
      | Inr t \<Rightarrow> (case inner_texts cs of Inl m \<Rightarrow> Inl m | Inr ts \<Rightarrow> Inr (t # ts)))"

text \<open>\<open>for row in rows\<close>: each row without its first cell is appended to \<open>all_rows_data\<close>.\<close>

fun msd_rows :: "msd_row list \<Rightarrow> string list list \<Rightarrow> string list list pw" where
  "msd_rows [] all_rows_data = Inr all_rows_data"
| "msd_rows (row # rows) all_rows_data =
     (case row of
        Inl m \<Rightarrow> Inl m
      | Inr cells \<Rightarrow>
          (case inner_texts (drop 1 cells) of
             Inl m \<Rightarrow> Inl m
           | Inr row_data \<Rightarrow> msd_rows rows (all_rows_data @ [row_data])))"

text \<open>
  One page of the grid: its rows, the text of \<open>#profileServicePager_right\<close>, the class
  attribute of the next button (\<open>None\<close> when it has none) and the outcome of clicking it
  and waiting for the grid.
\<close>

record msd_page =
  grid_rows :: "msd_row list pw"
  pager_text :: "string pw"
  next_class :: "string option pw"
  next_page :: "unit pw"

text \<open>
  The \<open>while True\<close> over the pages of one UAN. The result is \<open>all_rows_data\<close> at the
  \<open>break\<close>, or the exception raised; \<open>None\<close> is a run that never leaves the loop.
\<close>

partial_function (option) msd_pages ::
  "string \<Rightarrow> (nat \<Rightarrow> msd_page) \<Rightarrow> nat \<Rightarrow> string list list \<Rightarrow> world
     \<Rightarrow> (string list list result \<times> world) option" where
  "msd_pages uan pages i all_rows_data w =
     (case grid_rows (pages i) of
        Inl m \<Rightarrow> Some (Inl (PlaywrightError m), w)
      | Inr rows \<Rightarrow>
     (case (if rows = [] \<and> all_rows_data = []
            then (case pager_text (pages i) of
                    Inl m \<Rightarrow> Inl m
                  | Inr t \<Rightarrow> Inr (contains ''Member not found'' t))
            else Inr False) of
        Inl m \<Rightarrow> Some (Inl (PlaywrightError m), w)
      | Inr not_found \<Rightarrow>
          if not_found
          then Some (Inr all_rows_data, logging WARNING (''Member not found for UAN: '' @ uan) w)
          else
     (case msd_rows rows all_rows_data of
        Inl m \<Rightarrow> Some (Inl (PlaywrightError m), w)
      | Inr all_rows_data' \<Rightarrow>
     (case next_class (pages i) of
        Inl m \<Rightarrow> Some (Inl (PlaywrightError m), w)
      | Inr cls \<Rightarrow>
          if contains ''ui-state-disabled'' (case cls of None \<Rightarrow> [] | Some c \<Rightarrow> c)
          then Some (Inr all_rows_data', w)
          else
            (case next_page (pages i) of
               Inl m \<Rightarrow>
                 Some (Inl (PlaywrightError m),
                       put (Status_update (''UAN '' @ uan
                              @ '': Found multiple pages, going to next page...'')) w)
             | Inr u \<Rightarrow>
                 msd_pages uan pages (Suc i) all_rows_data'
                   (put (Status_update (''UAN '' @ uan
                           @ '': Found multiple pages, going to next page...'')) w))))))"

declare msd_pages.simps [code]

text \<open>
  \<open>pd.DataFrame(all_rows_data, columns=headers)\<close> of a non-empty list of lists: the rows
  are filled with \<open>None\<close> up to the longest one, and that length has to be the number of
  columns (\<open>ValueError\<close> otherwise).
\<close>

definition data_frame :: "string list list \<Rightarrow> string list \<Rightarrow> table result" where
  "data_frame all_rows_data headers =
     (let width = foldr max (map length all_rows_data) 0 in
      if length headers \<noteq> width
      then Inl (ValueError (str_nat (length headers) @ '' columns passed, passed data had ''
                              @ str_nat width @ '' columns''))
      else Inr (headers,
                map (\<lambda>r. map Some r @ replicate (width - length r) None) all_rows_data))"

text \<open>
  What the browser answers for one UAN: the outcome of filling the field, searching and
  waiting for the grid, the texts of the header cells, and the pages.
\<close>

record msd_search =
  submit :: "unit pw"
  header_texts :: "string list pw"
  grid_pages :: "nat \<Rightarrow> msd_page"

text \<open>One turn of \<open>for uan in uans\<close>; the state is \<open>generated_files\<close> and the world.\<close>

definition msd_uan ::
  "string \<Rightarrow> msd_search \<Rightarrow> string list \<times> world \<Rightarrow> (unit result \<times> string list \<times> world) option" where
  "msd_uan uan srch st =
     (case st of (generated_files, w) \<Rightarrow>
      (let w1 = put (Status_update (''Processing UAN: '' @ uan)) w in
      (case submit srch of
        Inl m \<Rightarrow> Some (Inl (PlaywrightError m), generated_files, w1)
      | Inr u \<Rightarrow>
     (case header_texts srch of
        Inl m \<Rightarrow> Some (Inl (PlaywrightError m), generated_files, w1)
      | Inr hs \<Rightarrow>
     (case msd_pages uan (grid_pages srch) 0 [] w1 of
        None \<Rightarrow> None
      | Some (Inl e, w2) \<Rightarrow> Some (Inl e, generated_files, w2)
      | Some (Inr all_rows_data, w2) \<Rightarrow>
          if all_rows_data \<noteq> [] then
            (case data_frame all_rows_data (msd_headers hs) of
               Inl e \<Rightarrow> Some (Inl e, generated_files, w2)
             | Inr df \<Rightarrow>
                 let excel_path = path_join ''msd_excel_files'' (uan @ ''.xlsx'')
                 in Some (Inr (), generated_files @ [excel_path],
                          logging INFO (''Saved service details for UAN '' @ uan @ '' to ''
                                          @ excel_path)
                            (fs_do (To_excel excel_path df) w2)))
          else Some (Inr (), generated_files, w2))))))"

fun msd_uans ::
  "(nat \<Rightarrow> msd_search) \<Rightarrow> nat \<Rightarrow> string list \<Rightarrow> string list \<times> world
     \<Rightarrow> (unit result \<times> string list \<times> world) option" where
  "msd_uans searches i [] st = Some (Inr (), st)"
| "msd_uans searches i (uan # uans) st =
     (case msd_uan uan (searches i) st of
        None \<Rightarrow> None
      | Some (Inl e, st') \<Rightarrow> Some (Inl e, st')
      | Some (Inr u, st') \<Rightarrow> msd_uans searches (Suc i) uans st')"

record msd_site =
  msd_nav :: "unit pw"
  msd_searches :: "nat \<Rightarrow> msd_search"

text \<open>The body of the \<open>try\<close> of the task: the navigation, then the UANs.\<close>

definition msd_try ::
  "msd_site \<Rightarrow> string list \<Rightarrow> world \<Rightarrow> (unit result \<times> string list \<times> world) option" where
  "msd_try site uans w =
     (let w1 = put (Status_update ''Navigating to Member Service Details page...'') w in
      case msd_nav site of
        Inl m \<Rightarrow> Some (Inl (PlaywrightError m), [], w1)
      | Inr u \<Rightarrow> msd_uans (msd_searches site) 0 uans ([], w1))"

definition run_msd_extraction ::
  "msd_site \<Rightarrow> string list \<Rightarrow> world \<Rightarrow> (unit result \<times> world) option" where
  "run_msd_extraction site uans w0 =
     (case msd_try site uans
             (fs_do (Mkdir ''msd_excel_files'')
                (put (Status_update ''Starting Member Service Detail extraction...'') w0)) of
        None \<Rightarrow> None
      | Some (Inl e, generated_files, w) \<Rightarrow>
          (case e of
             PlaywrightError m \<Rightarrow>
               Some (Inr (), put (Error (''An error occurred during MSD extraction: '' @ m)) w)
           | ValueError m \<Rightarrow> Some (Inl e, w)
           | OverflowError m \<Rightarrow> Some (Inl e, w))
      | Some (Inr u, generated_files, w) \<Rightarrow>
          let zip_filename = ''Member_Service_Details.zip'';
              w3 = (if generated_files \<noteq> []
                    then put (Info (''Task complete. All service details saved to ''
                                      @ zip_filename))
                           (fs_do (Rmdir ''msd_excel_files'')
                              (zip_all zip_filename generated_files
                                 (put (Status_update (''Zipping ''
                                         @ str_nat (length generated_files)
                                         @ '' Excel files...'')) w)))
                    else put (Info ''No data was extracted or saved.'') w)
          in Some (Inr (), put (Status_update ''Member Service Detail extraction finished.'') w3))"

section \<open>playwright_worker\<close>

datatype command =
    Shutdown
  | Open_login_page
  | Verify_login
  | Run_uan "string list" string
  | Run_ecr datetime datetime
  | Run_msd "string list"
  | Other_command string

text \<open>
  How the browser behaves while one command is handled: the outcome of \<open>goto\<close>, of the
  wait for the link that only a logged-in page shows, and the three sites.
\<close>

record page =
  goto :: "unit pw"
  member_link :: "unit pw"
  uan_pages :: uan_site
  ecr_pages_of :: ecr_site
  msd_pages_of :: msd_site

text \<open>
  The \<open>if\<close>/\<open>elif\<close> chain inside the \<open>try\<close> of the loop, for a command other than
  \<open>'shutdown'\<close>: the exception that leaves the handler if any, and the world.
\<close>

fun dispatch :: "command \<Rightarrow> page \<Rightarrow> world \<Rightarrow> (unit result \<times> world) option" where
  "dispatch Shutdown pg w = Some (Inr (), w)"
| "dispatch Open_login_page pg w =
     (case goto pg of
        Inr u \<Rightarrow> Some (Inr (), put Browser_opened w)
      | Inl m \<Rightarrow> Some (Inr (), put (Error (''Could not navigate: '' @ m)) w))"
| "dispatch Verify_login pg w =
     (case member_link pg of
        Inr u \<Rightarrow> Some (Inr (), put (Login_verified True) w)
      | Inl m \<Rightarrow> Some (Inr (), put (Login_verified False) w))"
| "dispatch (Run_uan uans output_file) pg w =
     Some (run_uan_extraction (uan_pages pg) uans output_file w)"
| "dispatch (Run_ecr start_date end_date) pg w =
     run_ecr_extraction (ecr_pages_of pg) start_date end_date w"
| "dispatch (Run_msd uans) pg w = run_msd_extraction (msd_pages_of pg) uans w"
| "dispatch (Other_command c) pg w = Some (Inr (), w)"

text \<open>
  How the worker stands when the model stops following it: past its loop, blocked in
  \<open>command_queue.get()\<close> on an empty queue, or returned because the browser did not
  launch.
\<close>

datatype worker_end = Terminated | Waiting | Launch_failed

text \<open>
  The \<open>while True\<close> of the worker over the commands in the queue, each with the browser's
  behaviour while it is handled. The result has the commands left in the queue.
  \<open>None\<close> is a handler that never returns.
\<close>

fun worker_loop ::
  "(command \<times> page) list \<Rightarrow> world \<Rightarrow> (worker_end \<times> (command \<times> page) list \<times> world) option" where
  "worker_loop [] w = Some (Waiting, [], w)"
| "worker_loop ((command, pg) # queue) w =
     (if command = Shutdown
      then Some (Terminated, queue, put (Status_update ''Shutting down...'') w)
      else (case dispatch command pg w of
              None \<Rightarrow> None
            | Some (Inr u, w') \<Rightarrow> worker_loop queue w'
            | Some (Inl e, w') \<Rightarrow>
                worker_loop queue
                  (put (Error (''An unexpected error occurred in the worker thread: ''
                                 @ str_exn e)) w')))"

text \<open>
  The worker: the launch, the loop, and after the loop \<open>browser.close()\<close>. The browser is
  a local variable of the worker: the handlers get the page only. \<open>browser_closes\<close>
  counts the calls of \<open>close\<close>.
\<close>

record worker_result =
  ended :: worker_end
  queue_left :: "(command \<times> page) list"
  final_world :: world
  browser_closes :: nat

definition playwright_worker ::
  "unit pw \<Rightarrow> (command \<times> page) list \<Rightarrow> world \<Rightarrow> worker_result option" where
  "playwright_worker launch queue w =
     (case launch of
        Inl m \<Rightarrow>
          Some \<lparr>ended = Launch_failed, queue_left = queue,
                final_world = put (Error (''Could not launch browser: '' @ m)) w,
                browser_closes = 0\<rparr>
      | Inr u \<Rightarrow>
          (case worker_loop queue (put (Status_update ''Ready. Please log in to begin.'') w) of
             None \<Rightarrow> None
           | Some (e, queue', w') \<Rightarrow>
               Some \<lparr>ended = e, queue_left = queue', final_world = w',
                     browser_closes = (if e = Terminated then 1 else 0)\<rparr>))"

section \<open>Vocabulary of the claims\<close>

text \<open>A call that returned.\<close>

fun returned :: "'a pw \<Rightarrow> bool" where
  "returned (Inr x) = True"
| "returned (Inl m) = False"

text \<open>
  A search yields a successfully read result row when the search itself and the reading
  of the three cells all return.
\<close>

definition yields_row :: "uan_lookup \<Rightarrow> bool" where
  "yields_row lk =
     (returned (search lk) \<and> returned (name_cell lk) \<and> returned (joining_cell lk)
      \<and> returned (exit_cell lk))"

text \<open>
  The requested UANs whose search yields a row, in the order of the request, the i-th
  search being the first of the list; and the records read for them.
\<close>

fun found_uans :: "(nat \<Rightarrow> uan_lookup) \<Rightarrow> nat \<Rightarrow> string list \<Rightarrow> string list" where
  "found_uans lookups i [] = []"
| "found_uans lookups i (uan # uans) =
     (if yields_row (lookups i) then uan # found_uans lookups (Suc i) uans
      else found_uans lookups (Suc i) uans)"

fun found_records :: "(nat \<Rightarrow> uan_lookup) \<Rightarrow> nat \<Rightarrow> string list \<Rightarrow> uan_record list" where
  "found_records lookups i [] = []"
| "found_records lookups i (uan # uans) =
     (case uan_try uan (lookups i) of
        Inr r \<Rightarrow> r # found_records lookups (Suc i) uans
      | Inl m \<Rightarrow> found_records lookups (Suc i) uans)"

text \<open>
  The wage month of a row lies in the requested range when the text of the cell is read
  as a date by the two lines of the source that do it, and that date is between the start
  and the end date, both included. A row qualifies when moreover its status text,
  stripped, is \<open>Payment Confirmed\<close>.
\<close>

definition in_range :: "datetime \<Rightarrow> datetime \<Rightarrow> string \<Rightarrow> bool" where
  "in_range start_date end_date wage_month_str =
     (case wage_date_of wage_month_str of
        Inr wage_date \<Rightarrow> datetime_le start_date wage_date \<and> datetime_le wage_date end_date
      | Inl e \<Rightarrow> False)"

definition qualifies :: "datetime \<Rightarrow> datetime \<Rightarrow> string \<Rightarrow> string \<Rightarrow> bool" where
  "qualifies start_date end_date status_text wage_month_str =
     (strip status_text = ''Payment Confirmed'' \<and> in_range start_date end_date wage_month_str)"

text \<open>
  The events that the \<open>try\<close> of \<open>run_msd_extraction\<close> puts for the requested UANs:
  the navigation, and for a UAN the search and the change of page.
\<close>

definition msd_status :: "string list \<Rightarrow> result_event \<Rightarrow> bool" where
  "msd_status uans ev =
     (ev = Status_update ''Navigating to Member Service Details page...''
      \<or> (\<exists>uan \<in> set uans.
            ev = Status_update (''Processing UAN: '' @ uan)
            \<or> ev = Status_update (''UAN '' @ uan
                       @ '': Found multiple pages, going to next page...'')))"

fun is_error :: "result_event \<Rightarrow> bool" where
  "is_error (Error m) = True"
| "is_error (Status_update s) = False"
| "is_error (Info s) = False"
| "is_error Browser_opened = False"
| "is_error (Login_verified b) = False"

text \<open>The path of the file that an operation writes as a table, if it does.\<close>

fun excel_path :: "fs_op \<Rightarrow> string option" where
  "excel_path (To_excel p t) = Some p"
| "excel_path (Mkdir d) = None"
| "excel_path (Save_as p) = None"
| "excel_path (Zip_open z) = None"
| "excel_path (Zip_write z n) = None"
| "excel_path (Remove p) = None"
| "excel_path (Rmdir d) = None"

text \<open>
  A body row of the grid is readable when the row and its cells but the first can be read;
  its record is then the texts of these cells, in order.
\<close>

definition readable_row :: "msd_row \<Rightarrow> bool" where
  "readable_row row = (case row of Inl m \<Rightarrow> False | Inr cells \<Rightarrow> list_all returned (drop 1 cells))"

definition cell_text :: "string pw \<Rightarrow> string" where
  "cell_text cell = (case cell of Inl m \<Rightarrow> [] | Inr t \<Rightarrow> t)"

definition row_data :: "msd_row \<Rightarrow> string list" where
  "row_data row = (case row of Inl m \<Rightarrow> [] | Inr cells \<Rightarrow> map cell_text (drop 1 cells))"

text \<open>
  The rows that a page of the grid shows. A page can be walked when its rows are readable
  and the class of its next button can be read; it is the last page when that class has
  \<open>ui-state-disabled\<close>, an inner page when it has not and the click on the button and the
  wait behind it return. \<open>msd_browsable pages i n\<close>: the pages from the i-th on are n
  inner pages and then a last page; \<open>msd_page_rows pages i n\<close> are their rows, in order.
\<close>

definition page_grid_rows :: "msd_page \<Rightarrow> msd_row list" where
  "page_grid_rows pg = (case grid_rows pg of Inl m \<Rightarrow> [] | Inr rows \<Rightarrow> rows)"

definition next_disabled :: "msd_page \<Rightarrow> bool option" where
  "next_disabled pg =
     (case next_class pg of
        Inl m \<Rightarrow> None
      | Inr cls \<Rightarrow> Some (contains ''ui-state-disabled'' (case cls of None \<Rightarrow> [] | Some c \<Rightarrow> c)))"

definition last_grid_page :: "msd_page \<Rightarrow> bool" where
  "last_grid_page pg =
     (returned (grid_rows pg) \<and> list_all readable_row (page_grid_rows pg)
      \<and> next_disabled pg = Some True)"

definition inner_grid_page :: "msd_page \<Rightarrow> bool" where
  "inner_grid_page pg =
     (returned (grid_rows pg) \<and> list_all readable_row (page_grid_rows pg)
      \<and> next_disabled pg = Some False \<and> returned (next_page pg))"

fun msd_browsable :: "(nat \<Rightarrow> msd_page) \<Rightarrow> nat \<Rightarrow> nat \<Rightarrow> bool" where
  "msd_browsable pages i 0 = last_grid_page (pages i)"
| "msd_browsable pages i (Suc n) = (inner_grid_page (pages i) \<and> msd_browsable pages (Suc i) n)"

fun msd_page_rows :: "(nat \<Rightarrow> msd_page) \<Rightarrow> nat \<Rightarrow> nat \<Rightarrow> msd_row list" where
  "msd_page_rows pages i 0 = page_grid_rows (pages i)"
| "msd_page_rows pages i (Suc n) = page_grid_rows (pages i) @ msd_page_rows pages (Suc i) n"

text \<open>
  The world after the search for a UAN and n changes of page; a record filled up with
  empty cells to the number of headers; the file of a UAN.
\<close>

definition paged :: "string \<Rightarrow> nat \<Rightarrow> world \<Rightarrow> world" where
  "paged uan n w =
     w\<lparr>result_queue := result_queue w
          @ Status_update (''Processing UAN: '' @ uan)
          # replicate n (Status_update (''UAN '' @ uan
                           @ '': Found multiple pages, going to next page...''))\<rparr>"

definition padded :: "string list \<Rightarrow> string list \<Rightarrow> string option list" where
  "padded headers r = map Some r @ replicate (length headers - length r) None"

definition excel_file :: "string \<Rightarrow> string" where
  "excel_file uan = path_join ''msd_excel_files'' (uan @ ''.xlsx'')"

text \<open>
  The year of a wage month fits in 32 bits when the text behind the hyphen, if \<open>int\<close>
  reads it at all, is a number that a C int holds. A row fits when the year of its wage
  month does (a wage month that is not two parts has no year that is read).
\<close>

definition year_in_32_bits :: "string \<Rightarrow> bool" where
  "year_in_32_bits year_str =
     (case int_of_str year_str of
        Inl e \<Rightarrow> True
      | Inr y \<Rightarrow> - 2147483648 \<le> y \<and> y \<le> 2147483647)"

definition fits :: "ecr_row \<Rightarrow> bool" where
  "fits row =
     (case wage_month_cell row of
        Inl m \<Rightarrow> True
      | Inr wage_month_str \<Rightarrow>
          (case split (CHR ''-'') wage_month_str of
             [month_str, year_str] \<Rightarrow> year_in_32_bits year_str
           | parts \<Rightarrow> True))"

text \<open>
  The download of a row is announced when its wage month and its status can be read and
  qualify, and its TRRN can be read. The statement of a row is saved when moreover the
  links of its tenth cell can be counted, there is at least one, and the download (the
  click, the wait for the file and saving it) returns. The announcement names the
  stripped TRRN; the file is named after the TRRN and the text of the wage month.
\<close>

definition announced :: "datetime \<Rightarrow> datetime \<Rightarrow> ecr_row \<Rightarrow> bool" where
  "announced start_date end_date row =
     (case wage_month_cell row of
        Inl m \<Rightarrow> False
      | Inr wage_month_str \<Rightarrow>
          (case status_cell row of
             Inl m \<Rightarrow> False
           | Inr status_text \<Rightarrow>
               qualifies start_date end_date status_text wage_month_str
               \<and> returned (trrn_cell row)))"

definition has_link :: "ecr_row \<Rightarrow> bool" where
  "has_link row = (case pdf_link_count row of Inl m \<Rightarrow> False | Inr n \<Rightarrow> 0 < n)"

definition saved :: "datetime \<Rightarrow> datetime \<Rightarrow> ecr_row \<Rightarrow> bool" where
  "saved start_date end_date row =
     (announced start_date end_date row \<and> has_link row \<and> returned (download row))"

definition announcement :: "ecr_row \<Rightarrow> result_event" where
  "announcement row =
     Status_update (''Downloading PDF for '' @ strip (cell_text (trrn_cell row)) @ ''...'')"

definition ecr_file :: "ecr_row \<Rightarrow> string" where
  "ecr_file row =
     path_join ''ecr_downloads''
       (strip (cell_text (trrn_cell row)) @ ''_'' @ cell_text (wage_month_cell row) @ ''.pdf'')"

text \<open>
  The rows that a result page shows. A page can be walked when the settle delay passes
  and its rows can be listed; it is the last page when no Next link is visible, an inner
  page when one is visible and the click on it returns. \<open>ecr_browsable pages i n\<close>: the
  pages from the i-th on are n inner pages and then a last page; \<open>ecr_page_rows pages i n\<close>
  are their rows, in order.
\<close>

definition page_table_rows :: "ecr_page \<Rightarrow> ecr_row list" where
  "page_table_rows pg = (case table_rows pg of Inl m \<Rightarrow> [] | Inr rows \<Rightarrow> rows)"

definition last_ecr_page :: "ecr_page \<Rightarrow> bool" where
  "last_ecr_page pg =
     (returned (settle pg) \<and> returned (table_rows pg) \<and> next_visible pg = Inr False)"

definition inner_ecr_page :: "ecr_page \<Rightarrow> bool" where
  "inner_ecr_page pg =
     (returned (settle pg) \<and> returned (table_rows pg) \<and> next_visible pg = Inr True
      \<and> returned (next_click pg))"

fun ecr_browsable :: "(nat \<Rightarrow> ecr_page) \<Rightarrow> nat \<Rightarrow> nat \<Rightarrow> bool" where
  "ecr_browsable pages i 0 = last_ecr_page (pages i)"
| "ecr_browsable pages i (Suc n) = (inner_ecr_page (pages i) \<and> ecr_browsable pages (Suc i) n)"

fun ecr_page_rows :: "(nat \<Rightarrow> ecr_page) \<Rightarrow> nat \<Rightarrow> nat \<Rightarrow> ecr_row list" where
  "ecr_page_rows pages i 0 = page_table_rows (pages i)"
| "ecr_page_rows pages i (Suc n) = page_table_rows (pages i) @ ecr_page_rows pages (Suc i) n"

text \<open>
  The name of the archive, the operations that archive a list of files, and the
  information event at the end of the task.
\<close>

definition ecr_zip :: "datetime \<Rightarrow> datetime \<Rightarrow> string" where
  "ecr_zip start_date end_date =
     ''ECR_Statements_'' @ strftime_Ym start_date @ ''_to_'' @ strftime_Ym end_date @ ''.zip''"

definition archived :: "string \<Rightarrow> string list \<Rightarrow> fs_op list" where
  "archived zip_filename files =
     (if files = [] then []
      else Zip_open zip_filename
           # concat (map (\<lambda>f. [Zip_write zip_filename (path_name f), Remove f]) files))"

definition ecr_info :: "string \<Rightarrow> string list \<Rightarrow> result_event" where
  "ecr_info zip_filename files =
     (if files = [] then Info ''No matching ECR statements found.''
      else Info (''ECR PDFs zipped to '' @ zip_filename))"

text \<open>
  The wage month as the specification writes it, \<open>Mon-YYYY\<close>: the abbreviation of the
  m-th month, a hyphen and the year on four digits. The months are counted from the
  year 0, so that a month is within a range when its number is between the numbers of
  the bounds.
\<close>

definition yyyy :: "nat \<Rightarrow> string" where
  "yyyy y = [digit_chars ! (y div 1000 mod 10), digit_chars ! (y div 100 mod 10),
             digit_chars ! (y div 10 mod 10), digit_chars ! (y mod 10)]"

definition mon_yyyy :: "nat \<Rightarrow> nat \<Rightarrow> string" where
  "mon_yyyy m y = months ! (m - 1) @ ''-'' @ yyyy y"

definition month_number :: "datetime \<Rightarrow> int" where
  "month_number d = 12 * year d + month d"

definition valid_month :: "datetime \<Rightarrow> bool" where
  "valid_month d = (1 \<le> month d \<and> month d \<le> 12)"

section \<open>Sample inputs\<close>

text \<open>Concrete worlds, dates, rows and sites, on which the theorems below are evaluated.\<close>

definition world0 :: world where
  "world0 = \<lparr>result_queue = [], log = [], fs = []\<rparr>"

definition jan_2024 :: datetime where
  "jan_2024 = \<lparr>year = 2024, month = 1\<rparr>"

definition mar_2024 :: datetime where
  "mar_2024 = \<lparr>year = 2024, month = 3\<rparr>"

text \<open>A row with a PDF link whose cells can all be read and whose download succeeds.\<close>

definition ecr_row_of :: "string \<Rightarrow> string \<Rightarrow> ecr_row" where
  "ecr_row_of wage_month status =
     \<lparr>wage_month_cell = Inr wage_month, status_cell = Inr status, trrn_cell = Inr ''T1'',
      pdf_link_count = Inr 1, download = Inr ()\<rparr>"

text \<open>A claim list of one page, with no Next link.\<close>

definition ecr_one_page :: "ecr_row list \<Rightarrow> ecr_site" where
  "ecr_one_page rows =
     \<lparr>ecr_nav = Inr (),
      ecr_result_pages = (\<lambda>i. \<lparr>settle = Inr (), table_rows = Inr rows,
                                 next_visible = Inr False, next_click = Inr ()\<rparr>)\<rparr>"

text \<open>A claim list whose page is closed during the settle delay.\<close>

definition ecr_closed_site :: ecr_site where
  "ecr_closed_site =
     \<lparr>ecr_nav = Inr (),
      ecr_result_pages = (\<lambda>i. \<lparr>settle = Inl ''Target closed'', table_rows = Inr [],
                                 next_visible = Inr False, next_click = Inr ()\<rparr>)\<rparr>"

text \<open>Sites on which every call times out.\<close>

definition no_uan_site :: uan_site where
  "no_uan_site =
     \<lparr>uan_nav = Inl ''Timeout'',
      uan_lookups = (\<lambda>i. \<lparr>search = Inl ''Timeout'', name_cell = Inl ''Timeout'',
                            joining_cell = Inl ''Timeout'', exit_cell = Inl ''Timeout''\<rparr>)\<rparr>"

definition no_msd_page :: msd_page where
  "no_msd_page = \<lparr>grid_rows = Inl ''Timeout'', pager_text = Inl ''Timeout'',
                   next_class = Inl ''Timeout'', next_page = Inl ''Timeout''\<rparr>"

definition no_msd_site :: msd_site where
  "no_msd_site =
     \<lparr>msd_nav = Inl ''Timeout'',
      msd_searches = (\<lambda>i. \<lparr>submit = Inl ''Timeout'', header_texts = Inl ''Timeout'',
                             grid_pages = (\<lambda>j. no_msd_page)\<rparr>)\<rparr>"

definition page_with_ecr :: "ecr_site \<Rightarrow> page" where
  "page_with_ecr site =
     \<lparr>goto = Inr (), member_link = Inr (), uan_pages = no_uan_site,
      ecr_pages_of = site, msd_pages_of = no_msd_site\<rparr>"

text \<open>A member list on which every search finds a member.\<close>

definition found_site :: uan_site where
  "found_site =
     \<lparr>uan_nav = Inr (),
      uan_lookups = (\<lambda>i. \<lparr>search = Inr (), name_cell = Inr '' Asha Rao '',
                            joining_cell = Inr ''01/04/2019'', exit_cell = Inr []\<rparr>)\<rparr>"

text \<open>A row whose tenth cell has no link.\<close>

definition ecr_row_without_link :: "string \<Rightarrow> string \<Rightarrow> ecr_row" where
  "ecr_row_without_link wage_month status =
     \<lparr>wage_month_cell = Inr wage_month, status_cell = Inr status, trrn_cell = Inr ''T1'',
      pdf_link_count = Inr 0, download = Inr ()\<rparr>"

text \<open>
  A grid of one page, whose next button is disabled, under the given header line; and a
  member service site that answers the i-th search with the i-th of the given grids (the
  last one from there on).
\<close>

definition msd_last_page :: "msd_row list \<Rightarrow> msd_page" where
  "msd_last_page rows =
     \<lparr>grid_rows = Inr rows, pager_text = Inr ''View 1 - 1 of 1'',
      next_class = Inr (Some ''ui-pg-button ui-state-disabled''), next_page = Inr ()\<rparr>"

definition msd_grid :: "string list \<Rightarrow> msd_row list \<Rightarrow> msd_search" where
  "msd_grid headers rows =
     \<lparr>submit = Inr (), header_texts = Inr headers, grid_pages = (\<lambda>i. msd_last_page rows)\<rparr>"

definition msd_site_of :: "msd_search list \<Rightarrow> msd_site" where
  "msd_site_of grids =
     \<lparr>msd_nav = Inr (), msd_searches = (\<lambda>i. grids ! min i (length grids - 1))\<rparr>"

definition asha_row :: msd_row where
  "asha_row = Inr [Inr ''1'', Inr ''Asha Rao'', Inr ''01/04/2019'']"

text \<open>A row whose second cell can no longer be read.\<close>

definition detached_row :: msd_row where
  "detached_row = Inr [Inr ''1'', Inl ''Element is not attached to the DOM'', Inr ''01/04/2019'']"

text \<open>A member list on which the first search times out and the later ones find a member.\<close>

definition timeout_then_found :: "nat \<Rightarrow> uan_lookup" where
  "timeout_then_found i =
     (if i = 0
      then \<lparr>search = Inl ''Timeout 2000ms exceeded'', name_cell = Inr [],
            joining_cell = Inr [], exit_cell = Inr []\<rparr>
      else uan_lookups found_site i)"

text \<open>A claim row whose status cell can no longer be read.\<close>

definition detached_status_row :: ecr_row where
  "detached_status_row =
     \<lparr>wage_month_cell = Inr ''Feb-2024'',
      status_cell = Inl ''Element is not attached to the DOM'',
      trrn_cell = Inr ''T1'', pdf_link_count = Inr 1, download = Inr ()\<rparr>"

text \<open>A grid of two pages: the next button of the first is enabled.\<close>

definition msd_two_pages :: "string list \<Rightarrow> msd_row list \<Rightarrow> msd_row list \<Rightarrow> msd_search" where
  "msd_two_pages headers rows1 rows2 =
     \<lparr>submit = Inr (), header_texts = Inr headers,
      grid_pages = (\<lambda>i. if i = 0
                         then \<lparr>grid_rows = Inr rows1, pager_text = Inr ''View 1 - 1 of 2'',
                               next_class = Inr (Some ''ui-pg-button ui-corner-all''),
                               next_page = Inr ()\<rparr>
                         else msd_last_page rows2)\<rparr>"

text \<open>A row that has lost its last cell.\<close>

definition short_row :: msd_row where
  "short_row = Inr [Inr ''2'', Inr ''Ravi Kumar'']"

text \<open>A claim list of two pages: the first has a Next link, the second has none.\<close>

definition ecr_two_pages :: "ecr_row list \<Rightarrow> ecr_row list \<Rightarrow> ecr_site" where
  "ecr_two_pages rows1 rows2 =
     \<lparr>ecr_nav = Inr (),
      ecr_result_pages = (\<lambda>i. if i = 0
                               then \<lparr>settle = Inr (), table_rows = Inr rows1,
                                     next_visible = Inr True, next_click = Inr ()\<rparr>
                               else \<lparr>settle = Inr (), table_rows = Inr rows2,
                                     next_visible = Inr False, next_click = Inr ()\<rparr>)\<rparr>"

text \<open>A row with a PDF link whose download does not arrive.\<close>

definition ecr_row_timeout :: "string \<Rightarrow> string \<Rightarrow> ecr_row" where
  "ecr_row_timeout wage_month status =
     \<lparr>wage_month_cell = Inr wage_month, status_cell = Inr status, trrn_cell = Inr ''T2'',
      pdf_link_count = Inr 1, download = Inl ''Timeout 30000ms exceeded''\<rparr>"

section \<open>The worker loop\<close>

text \<open>
  C5. The handler of \<open>verify_login\<close> returns normally and puts exactly one event on the
  result queue, \<open>login_verified\<close> with a boolean: \<open>True\<close> when the wait for the
  Member link returned, \<open>False\<close> when it raised (the link did not appear in time). No
  \<open>error\<close> event is produced and the loop goes on with the next command.
\<close>

theorem verify_login_one_event:
  "dispatch Verify_login pg w =
     Some (Inr (),
           w\<lparr>result_queue := result_queue w
                @ [Login_verified (case member_link pg of Inl m \<Rightarrow> False | Inr u \<Rightarrow> True)]\<rparr>)
   \<and> worker_loop ((Verify_login, pg) # queue) w =
       worker_loop queue
         (w\<lparr>result_queue := result_queue w
              @ [Login_verified (case member_link pg of Inl m \<Rightarrow> False | Inr u \<Rightarrow> True)]\<rparr>)"
  by (simp add: put_def split: sum.splits)

text \<open>
  C3. For a command other than \<open>shutdown\<close> whose handler raises an exception \<open>e\<close>
  (leaving the world \<open>w'\<close>), the loop adds the single event
  \<open>('error', "An unexpected error occurred in the worker thread: e")\<close> and goes on
  with the rest of the queue: the exception neither ends the loop nor leaves it.
\<close>

theorem worker_catches_handler_exception:
  assumes "command \<noteq> Shutdown" and "dispatch command pg w = Some (Inl e, w')"
  shows "worker_loop ((command, pg) # queue) w =
           worker_loop queue
             (w'\<lparr>result_queue := result_queue w'
                  @ [Error (''An unexpected error occurred in the worker thread: '' @ str_exn e)]\<rparr>)"
  using assms by (simp add: put_def)

theorem worker_catches_handler_exception_witness:
  "Run_ecr jan_2024 mar_2024 \<noteq> Shutdown
   \<and> dispatch (Run_ecr jan_2024 mar_2024) (page_with_ecr ecr_closed_site) world0 =
       Some (Inl (PlaywrightError ''Target closed''),
             \<lparr>result_queue = [Status_update ''Starting ECR PDF extraction...''],
              log = [], fs = [Mkdir ''ecr_downloads'']\<rparr>)
   \<and> worker_loop [(Run_ecr jan_2024 mar_2024, page_with_ecr ecr_closed_site),
                   (Verify_login, page_with_ecr ecr_closed_site)] world0 =
       Some (Waiting, [],
             \<lparr>result_queue =
                [Status_update ''Starting ECR PDF extraction...'',
                 Error ''An unexpected error occurred in the worker thread: Target closed'',
                 Login_verified True],
              log = [], fs = [Mkdir ''ecr_downloads'']\<rparr>)"
proof -
  have d: "dispatch (Run_ecr jan_2024 mar_2024) (page_with_ecr ecr_closed_site) world0 =
       Some (Inl (PlaywrightError ''Target closed''),
             \<lparr>result_queue = [Status_update ''Starting ECR PDF extraction...''],
              log = [], fs = [Mkdir ''ecr_downloads'']\<rparr>)"
    by code_simp
  have n: "Run_ecr jan_2024 mar_2024 \<noteq> Shutdown" by simp
  show ?thesis
    using worker_catches_handler_exception[OF n d,
        of "[(Verify_login, page_with_ecr ecr_closed_site)]"] d
    by (simp add: put_def page_with_ecr_def)
qed

text \<open>Commands that were all handled do not change what the loop does with the rest.\<close>

lemma worker_loop_append:
  "worker_loop pre w = Some (Waiting, [], w') \<Longrightarrow>
     worker_loop (pre @ queue) w = worker_loop queue w'"
proof (induction pre arbitrary: w)
  case Nil
  then show ?case by simp
next
  case (Cons a pre)
  obtain c pg where a: "a = (c, pg)" by (cases a)
  from Cons.prems a have ns: "c \<noteq> Shutdown" by (auto split: if_splits)
  from Cons.prems a ns obtain r w1 where d: "dispatch c pg w = Some (r, w1)"
    by (auto split: option.splits)
  show ?case
  proof (cases r)
    case (Inl x)
    with Cons.prems a ns d show ?thesis by (simp add: Cons.IH)
  next
    case (Inr u)
    with Cons.prems a ns d show ?thesis by (simp add: Cons.IH)
  qed
qed

text \<open>
  C9. When the commands before a \<open>shutdown\<close> have all been handled (with the world
  \<open>w'\<close> as the result), the worker dequeues the \<open>shutdown\<close>, puts the one event
  \<open>('status_update', "Shutting down...")\<close> last, leaves its loop with the commands
  behind the \<open>shutdown\<close> still in the queue, and closes the browser once.
\<close>

theorem shutdown_ends_worker:
  assumes "worker_loop pre (put (Status_update ''Ready. Please log in to begin.'') w)
             = Some (Waiting, [], w')"
  shows "playwright_worker (Inr ()) (pre @ (Shutdown, pg) # rest) w =
           Some \<lparr>ended = Terminated, queue_left = rest,
                 final_world =
                   w'\<lparr>result_queue := result_queue w' @ [Status_update ''Shutting down...'']\<rparr>,
                 browser_closes = 1\<rparr>"
  using worker_loop_append[OF assms, of "(Shutdown, pg) # rest"]
  by (simp add: playwright_worker_def put_def)

theorem shutdown_ends_worker_witness:
  "worker_loop [(Verify_login, page_with_ecr ecr_closed_site)]
       (put (Status_update ''Ready. Please log in to begin.'') world0) =
     Some (Waiting, [],
           \<lparr>result_queue = [Status_update ''Ready. Please log in to begin.'', Login_verified True],
            log = [], fs = []\<rparr>)
   \<and> playwright_worker (Inr ())
       ([(Verify_login, page_with_ecr ecr_closed_site)]
          @ (Shutdown, page_with_ecr ecr_closed_site)
          # [(Run_ecr jan_2024 mar_2024, page_with_ecr ecr_closed_site)]) world0 =
     Some \<lparr>ended = Terminated,
           queue_left = [(Run_ecr jan_2024 mar_2024, page_with_ecr ecr_closed_site)],
           final_world =
             \<lparr>result_queue = [Status_update ''Ready. Please log in to begin.'',
                              Login_verified True, Status_update ''Shutting down...''],
              log = [], fs = []\<rparr>,
           browser_closes = 1\<rparr>"
proof -
  have h: "worker_loop [(Verify_login, page_with_ecr ecr_closed_site)]
       (put (Status_update ''Ready. Please log in to begin.'') world0) =
     Some (Waiting, [],
           \<lparr>result_queue = [Status_update ''Ready. Please log in to begin.'', Login_verified True],
            log = [], fs = []\<rparr>)"
    by (simp add: put_def world0_def page_with_ecr_def)
  show ?thesis
    using shutdown_ends_worker[OF h, of "page_with_ecr ecr_closed_site"
        "[(Run_ecr jan_2024 mar_2024, page_with_ecr ecr_closed_site)]"] h
    by simp
qed

section \<open>The UAN profile lookup\<close>

lemma uan_try_cases:
  "(yields_row lk \<and> (\<exists>n j e. uan_try uan lk = Inr [uan, n, j, e]))
   \<or> (\<not> yields_row lk \<and> (\<exists>m. uan_try uan lk = Inl m))"
  by (auto simp: uan_try_def yields_row_def split: sum.splits)

lemma uan_loop_fs: "fs (snd (uan_loop lookups i uans (acc, w))) = fs w"
  by (induction uans arbitrary: i acc w)
     (simp_all add: Let_def put_def logging_def split: sum.splits)

lemma uan_loop_events:
  "result_queue (snd (uan_loop lookups i uans (acc, w))) =
     result_queue w
     @ map (\<lambda>uan. Status_update (''Extracting data for UAN: '' @ uan @ ''...'')) uans"
  by (induction uans arbitrary: i acc w)
     (simp_all add: Let_def put_def logging_def split: sum.splits)

lemma uan_loop_rows:
  "fst (uan_loop lookups i uans (acc, w)) = acc @ found_records lookups i uans"
  by (induction uans arbitrary: i acc w) (simp_all add: Let_def split: sum.splits)

lemma found_records_uans:
  "map hd (found_records lookups i uans) = found_uans lookups i uans
   \<and> list_all (\<lambda>r. length r = 4) (found_records lookups i uans)"
proof (induction uans arbitrary: i)
  case Nil
  then show ?case by simp
next
  case (Cons uan uans)
  from uan_try_cases[of "lookups i" uan] Cons.IH[of "Suc i"] show ?case
    by auto
qed

lemma found_uans_subset: "set (found_uans lookups i uans) \<subseteq> set uans"
  by (induction uans arbitrary: i) auto

lemma found_uans_distinct: "distinct uans \<Longrightarrow> distinct (found_uans lookups i uans)"
proof (induction uans arbitrary: i)
  case Nil
  then show ?case by simp
next
  case (Cons uan uans)
  then show ?case using found_uans_subset[of lookups "Suc i" uans] by auto
qed

lemma found_uans_length:
  "length (found_uans lookups i uans) =
     length (filter (\<lambda>k. yields_row (lookups (i + k))) [0 ..< length uans])"
proof (induction uans arbitrary: i)
  case Nil
  then show ?case by simp
next
  case (Cons uan uans)
  have "[0 ..< length (uan # uans)] = 0 # map Suc [0 ..< length uans]"
    by (simp add: upt_conv_Cons map_Suc_upt del: upt_Suc)
  then show ?case
    using Cons.IH[of "Suc i"] by (simp add: filter_map comp_def del: upt_Suc)
qed

text \<open>
  C6, as amended. When the navigation to the member list succeeds, the rows of the table
  are the records of the requested UANs whose search yields a row, in the order of the
  request: as many rows as there are such searches (M), each row with the four cells
  UAN, Name, Joining Date, Exit Date in this order, and the first cell the requested UAN.
  A UAN requested several times appears once per successful search; when the requested
  UANs are pairwise distinct, each appears at most once. With at least one row the one
  file-system operation is writing this table to the output file; with none (M = 0)
  nothing is written and the events are the status updates, then
  \<open>('info', "No UAN data was extracted.")\<close> and the final status update.
\<close>

theorem uan_output_table:
  assumes "uan_nav site = Inr ()"
  shows "(found_records (uan_lookups site) 0 uans \<noteq> [] \<longrightarrow>
            fs (snd (run_uan_extraction site uans output_file w)) =
              fs w @ [To_excel output_file
                        (uan_columns, map (map Some) (found_records (uan_lookups site) 0 uans))])
       \<and> (found_records (uan_lookups site) 0 uans = [] \<longrightarrow>
            fs (snd (run_uan_extraction site uans output_file w)) = fs w
            \<and> result_queue (snd (run_uan_extraction site uans output_file w)) =
                result_queue w
                @ Status_update ''Starting UAN extraction...''
                # map (\<lambda>uan. Status_update (''Extracting data for UAN: '' @ uan @ ''...'')) uans
                @ [Info ''No UAN data was extracted.'', Status_update ''UAN extraction finished.''])
       \<and> map hd (found_records (uan_lookups site) 0 uans) = found_uans (uan_lookups site) 0 uans
       \<and> list_all (\<lambda>r. length r = 4) (found_records (uan_lookups site) 0 uans)
       \<and> length (found_records (uan_lookups site) 0 uans) =
           length (filter (\<lambda>k. yields_row (uan_lookups site k)) [0 ..< length uans])
       \<and> (distinct uans \<longrightarrow> distinct (map hd (found_records (uan_lookups site) 0 uans)))"
proof -
  let ?w1 = "put (Status_update ''Starting UAN extraction...'') w"
  obtain d w2 where l: "uan_loop (uan_lookups site) 0 uans ([], ?w1) = (d, w2)"
    by (cases "uan_loop (uan_lookups site) 0 uans ([], ?w1)")
  from uan_loop_rows[of "uan_lookups site" 0 uans "[]" ?w1] l
  have d: "d = found_records (uan_lookups site) 0 uans" by simp
  from uan_loop_fs[of "uan_lookups site" 0 uans "[]" ?w1] l
  have f: "fs w2 = fs w" by (simp add: put_def)
  from uan_loop_events[of "uan_lookups site" 0 uans "[]" ?w1] l
  have e: "result_queue w2 = result_queue w @ Status_update ''Starting UAN extraction...''
     # map (\<lambda>uan. Status_update (''Extracting data for UAN: '' @ uan @ ''...'')) uans"
    by (simp add: put_def)
  have r: "run_uan_extraction site uans output_file w =
     (Inr (), put (Status_update ''UAN extraction finished.'')
        (if d \<noteq> [] then put (Info (''UAN data extracted and saved to '' @ output_file))
                                (fs_do (To_excel output_file (uan_frame d)) w2)
         else put (Info ''No UAN data was extracted.'') w2))"
    using assms l by (simp add: run_uan_extraction_def Let_def)
  have m: "map hd (found_records (uan_lookups site) 0 uans) = found_uans (uan_lookups site) 0 uans"
    and a: "list_all (\<lambda>r. length r = 4) (found_records (uan_lookups site) 0 uans)"
    using found_records_uans[of "uan_lookups site" 0 uans] by simp_all
  have n: "length (found_records (uan_lookups site) 0 uans) =
           length (filter (\<lambda>k. yields_row (uan_lookups site k)) [0 ..< length uans])"
  proof -
    have "length (found_records (uan_lookups site) 0 uans) =
          length (found_uans (uan_lookups site) 0 uans)"
      using arg_cong[OF m, of length] by simp
    then show ?thesis using found_uans_length[of "uan_lookups site" 0 uans] by simp
  qed
  show ?thesis
    using r d f e m a n found_uans_distinct[of uans "uan_lookups site" 0]
    by (simp add: put_def fs_do_def uan_frame_def)
qed

theorem uan_output_table_witness:
  "uan_nav found_site = Inr ()
   \<and> found_records (uan_lookups found_site) 0 [''100'', ''200''] =
       [[''100'', ''Asha Rao'', ''01/04/2019'', []], [''200'', ''Asha Rao'', ''01/04/2019'', []]]
   \<and> fs (snd (run_uan_extraction found_site [''100'', ''200''] ''epfo_data.xlsx'' world0)) =
       [To_excel ''epfo_data.xlsx''
          ([''UAN'', ''Name'', ''Joining Date'', ''Exit Date''],
           [[Some ''100'', Some ''Asha Rao'', Some ''01/04/2019'', Some []],
            [Some ''200'', Some ''Asha Rao'', Some ''01/04/2019'', Some []]])]"
proof -
  have n: "uan_nav found_site = Inr ()" by (simp add: found_site_def)
  have r: "found_records (uan_lookups found_site) 0 [''100'', ''200''] =
       [[''100'', ''Asha Rao'', ''01/04/2019'', []], [''200'', ''Asha Rao'', ''01/04/2019'', []]]"
    by code_simp
  have f0: "fs world0 = []" by (simp add: world0_def)
  have c: "uan_columns = [''UAN'', ''Name'', ''Joining Date'', ''Exit Date'']"
    by (simp add: uan_columns_def)
  from uan_output_table[OF n, of "[''100'', ''200'']" "''epfo_data.xlsx''" world0]
  have "found_records (uan_lookups found_site) 0 [''100'', ''200''] \<noteq> [] \<longrightarrow>
          fs (snd (run_uan_extraction found_site [''100'', ''200''] ''epfo_data.xlsx'' world0)) =
            fs world0 @ [To_excel ''epfo_data.xlsx''
               (uan_columns,
                map (map Some) (found_records (uan_lookups found_site) 0 [''100'', ''200'']))]"
    by (rule conjunct1)
  then have "fs (snd (run_uan_extraction found_site [''100'', ''200''] ''epfo_data.xlsx'' world0)) =
       [To_excel ''epfo_data.xlsx''
          ([''UAN'', ''Name'', ''Joining Date'', ''Exit Date''],
           [[Some ''100'', Some ''Asha Rao'', Some ''01/04/2019'', Some []],
            [Some ''200'', Some ''Asha Rao'', Some ''01/04/2019'', Some []]])]"
    unfolding r f0 c by simp
  with n r show ?thesis by blast
qed

text \<open>
  The claim as stated fails when a UAN is requested twice: both searches yield a row, and
  the table has two rows with the same UAN.
\<close>

theorem uan_duplicate_request_counterexample:
  "fs (snd (run_uan_extraction found_site [''100'', ''100''] ''epfo_data.xlsx'' world0)) =
     [To_excel ''epfo_data.xlsx''
        ([''UAN'', ''Name'', ''Joining Date'', ''Exit Date''],
         [[Some ''100'', Some ''Asha Rao'', Some ''01/04/2019'', Some []],
          [Some ''100'', Some ''Asha Rao'', Some ''01/04/2019'', Some []]])]"
  by code_simp

section \<open>The ECR statement download\<close>

subsection \<open>The month names\<close>

lemma index_of_nth: "distinct ys \<Longrightarrow> k < length ys \<Longrightarrow> index_of (ys ! k) ys = Inr k"
proof (induction ys arbitrary: k)
  case Nil
  then show ?case by simp
next
  case (Cons y ys)
  show ?case
  proof (cases k)
    case 0
    then show ?thesis by simp
  next
    case (Suc j)
    with Cons.prems have "ys ! j \<noteq> y" by auto
    with Suc Cons.prems Cons.IH[of j] show ?thesis by simp
  qed
qed


lemma index_of_bound: "index_of x ys = Inr i \<Longrightarrow> i < length ys"
  by (induction ys arbitrary: i) (auto split: if_splits sum.splits)

lemma get_month_index_month:
  assumes "k < 12" and "title month_str = months ! k"
  shows "get_month_index month_str = int k + 1"
proof -
  have "distinct months" and "length months = 12" by (simp_all add: months_def)
  with assms index_of_nth[of months k] show ?thesis by (simp add: get_month_index_def)
qed


lemma get_month_index_bounds:
  "- 1 \<le> get_month_index month_str \<and> get_month_index month_str \<le> 12"
proof (cases "index_of (title month_str) months")
  case (Inl e)
  then show ?thesis by (simp add: get_month_index_def)
next
  case (Inr i)
  from index_of_bound[OF Inr] have "i < 12" by (simp add: months_def)
  with Inr show ?thesis by (simp add: get_month_index_def)
qed

subsection \<open>One row\<close>

text \<open>
  When the year fits in 32 bits, reading the wage month gives a date or raises
  \<open>ValueError\<close>, the exception that the handler of the row catches.
\<close>

lemma datetime_new_no_overflow:
  assumes "- 2147483648 \<le> y" and "y \<le> 2147483647"
  shows "(\<exists>d. datetime_new y (get_month_index month_str) = Inr d)
       \<or> (\<exists>m. datetime_new y (get_month_index month_str) = Inl (ValueError m))"
  using assms get_month_index_bounds[of month_str]
  by (simp add: datetime_new_def c_int_def)

lemma wage_date_of_no_overflow:
  assumes "wage_date_of wage_month_str = Inl e"
    and "case split (CHR ''-'') wage_month_str of
           [month_str, year_str] \<Rightarrow> year_in_32_bits year_str | parts \<Rightarrow> True"
  shows "\<exists>m. e = ValueError m"
proof (cases "\<exists>month_str year_str. split (CHR ''-'') wage_month_str = [month_str, year_str]")
  case False
  with assms(1) show ?thesis
    by (auto simp: wage_date_of_def split: list.splits)
next
  case True
  then obtain month_str year_str where s: "split (CHR ''-'') wage_month_str = [month_str, year_str]"
    by blast
  show ?thesis
  proof (cases "int_of_str year_str")
    case (Inl e')
    then have "\<exists>m. e' = ValueError m"
      by (auto simp: int_of_str_def Let_def split: if_splits)
    with assms(1) s Inl show ?thesis by (simp add: wage_date_of_def)
  next
    case (Inr y)
    with assms(2) s have "- 2147483648 \<le> y" "y \<le> 2147483647"
      by (simp_all add: year_in_32_bits_def)
    from datetime_new_no_overflow[OF this, of month_str] assms(1) s Inr show ?thesis
      by (auto simp: wage_date_of_def)
  qed
qed

text \<open>What the \<open>try\<close> and its handler do for a row that fits.\<close>

lemma ecr_row_step_fits:
  assumes "fits row"
  shows "\<exists>w'. ecr_row_step start_date end_date row (files, w) =
                 (Inr (), files @ (if saved start_date end_date row then [ecr_file row] else []), w')
             \<and> result_queue w' =
                 result_queue w @ (if announced start_date end_date row then [announcement row] else [])
             \<and> fs w' =
                 fs w @ (if saved start_date end_date row then [Save_as (ecr_file row)] else [])"
proof (cases "wage_month_cell row")
  case (Inl m)
  then show ?thesis
    by (simp add: ecr_row_step_def ecr_row_try_def announced_def saved_def logging_def)
next
  case wm: (Inr wage_month_str)
  show ?thesis
  proof (cases "status_cell row")
    case (Inl m)
    with wm show ?thesis
      by (simp add: ecr_row_step_def ecr_row_try_def announced_def saved_def logging_def)
  next
    case st: (Inr status_text)
    show ?thesis
    proof (cases "strip status_text = ''Payment Confirmed''")
      case False
      with wm st show ?thesis
        by (simp add: ecr_row_step_def ecr_row_try_def announced_def saved_def qualifies_def)
    next
      case pc: True
      show ?thesis
      proof (cases "wage_date_of wage_month_str")
        case (Inl e)
        from assms wm have "case split (CHR ''-'') wage_month_str of
           [month_str, year_str] \<Rightarrow> year_in_32_bits year_str | parts \<Rightarrow> True"
          by (simp add: fits_def)
        from wage_date_of_no_overflow[OF Inl this] obtain m where "e = ValueError m" by blast
        with wm st pc Inl show ?thesis
          by (simp add: ecr_row_step_def ecr_row_try_def announced_def saved_def qualifies_def
              in_range_def logging_def)
      next
        case wd: (Inr wage_date)
        show ?thesis
        proof (cases "datetime_le start_date wage_date \<and> datetime_le wage_date end_date")
          case False
          with wm st pc wd show ?thesis
            by (auto simp: ecr_row_step_def ecr_row_try_def announced_def saved_def qualifies_def
                in_range_def)
        next
          case rg: True
          show ?thesis
          proof (cases "trrn_cell row")
            case (Inl m)
            with wm st pc wd rg show ?thesis
              by (simp add: ecr_row_step_def ecr_row_try_def announced_def saved_def
                  qualifies_def in_range_def logging_def)
          next
            case tr: (Inr trrn_text)
            with wm st pc wd rg have a: "announced start_date end_date row"
              by (simp add: announced_def qualifies_def in_range_def)
            show ?thesis
            proof (cases "pdf_link_count row")
              case (Inl m)
              with wm st pc wd rg tr a show ?thesis
                by (simp add: ecr_row_step_def ecr_row_try_def saved_def has_link_def
                    announcement_def cell_text_def logging_def put_def Let_def)
            next
              case ct: (Inr n)
              show ?thesis
              proof (cases "0 < n")
                case False
                with wm st pc wd rg tr a ct show ?thesis
                  by (simp add: ecr_row_step_def ecr_row_try_def saved_def has_link_def
                      announcement_def cell_text_def put_def Let_def)
              next
                case ps: True
                show ?thesis
                proof (cases "download row")
                  case (Inl m)
                  with wm st pc wd rg tr a ct ps show ?thesis
                    by (simp add: ecr_row_step_def ecr_row_try_def saved_def has_link_def
                        announcement_def cell_text_def put_def logging_def Let_def)
                next
                  case (Inr u)
                  with wm st pc wd rg tr a ct ps show ?thesis
                    by (simp add: ecr_row_step_def ecr_row_try_def saved_def has_link_def
                        announcement_def ecr_file_def cell_text_def put_def fs_do_def Let_def)
                qed
              qed
            qed
          qed
        qed
      qed
    qed
  qed
qed


subsection \<open>The rows of a page, the pages and the archive\<close>

lemma ecr_rows_fits:
  assumes "list_all fits rows"
  shows "\<exists>w'. ecr_rows start_date end_date rows (files, w) =
                 (Inr (), files @ map ecr_file (filter (saved start_date end_date) rows), w')
             \<and> result_queue w' =
                 result_queue w @ map announcement (filter (announced start_date end_date) rows)
             \<and> fs w' =
                 fs w @ map (\<lambda>row. Save_as (ecr_file row)) (filter (saved start_date end_date) rows)"
  using assms
proof (induction rows arbitrary: files w)
  case Nil
  then show ?case by simp
next
  case (Cons row rows)
  from Cons.prems have f: "fits row" and r: "list_all fits rows" by simp_all
  from ecr_row_step_fits[OF f, of start_date end_date files w] obtain w1 where
    s: "ecr_row_step start_date end_date row (files, w) =
          (Inr (), files @ (if saved start_date end_date row then [ecr_file row] else []), w1)"
    and q: "result_queue w1 =
          result_queue w @ (if announced start_date end_date row then [announcement row] else [])"
    and o: "fs w1 = fs w @ (if saved start_date end_date row then [Save_as (ecr_file row)] else [])"
    by blast
  from Cons.IH[OF r, of "files @ (if saved start_date end_date row then [ecr_file row] else [])" w1]
  obtain w2 where
    s2: "ecr_rows start_date end_date rows
           (files @ (if saved start_date end_date row then [ecr_file row] else []), w1) =
         (Inr (), (files @ (if saved start_date end_date row then [ecr_file row] else []))
                    @ map ecr_file (filter (saved start_date end_date) rows), w2)"
    and q2: "result_queue w2 =
         result_queue w1 @ map announcement (filter (announced start_date end_date) rows)"
    and o2: "fs w2 =
         fs w1 @ map (\<lambda>row. Save_as (ecr_file row)) (filter (saved start_date end_date) rows)"
    by blast
  from s s2 have "ecr_rows start_date end_date (row # rows) (files, w) =
      (Inr (), files @ map ecr_file (filter (saved start_date end_date) (row # rows)), w2)"
    by simp
  moreover from q q2 have "result_queue w2 =
      result_queue w @ map announcement (filter (announced start_date end_date) (row # rows))"
    by simp
  moreover from o o2 have "fs w2 =
      fs w @ map (\<lambda>row. Save_as (ecr_file row)) (filter (saved start_date end_date) (row # rows))"
    by simp
  ultimately show ?case by blast
qed

lemma ecr_pages_fits:
  assumes "ecr_browsable pages i n" and "list_all fits (ecr_page_rows pages i n)"
  shows "\<exists>w'. ecr_pages start_date end_date pages i (files, w) =
                 Some (Inr (), files @ map ecr_file
                                 (filter (saved start_date end_date) (ecr_page_rows pages i n)), w')
             \<and> result_queue w' =
                 result_queue w @ map announcement
                   (filter (announced start_date end_date) (ecr_page_rows pages i n))
             \<and> fs w' =
                 fs w @ map (\<lambda>row. Save_as (ecr_file row))
                   (filter (saved start_date end_date) (ecr_page_rows pages i n))"
  using assms
proof (induction n arbitrary: i files w)
  case 0
  from 0(1) obtain u rows where p: "settle (pages i) = Inr u" "table_rows (pages i) = Inr rows"
    "next_visible (pages i) = Inr False"
    by (cases "settle (pages i)"; cases "table_rows (pages i)") (auto simp: last_ecr_page_def)
  from 0(2) p have "list_all fits rows" by (simp add: page_table_rows_def)
  from ecr_rows_fits[OF this, of start_date end_date files w] obtain w1 where
    s: "ecr_rows start_date end_date rows (files, w) =
          (Inr (), files @ map ecr_file (filter (saved start_date end_date) rows), w1)"
    and q: "result_queue w1 =
          result_queue w @ map announcement (filter (announced start_date end_date) rows)"
    and o: "fs w1 =
          fs w @ map (\<lambda>row. Save_as (ecr_file row)) (filter (saved start_date end_date) rows)"
    by blast
  have "ecr_pages start_date end_date pages i (files, w) =
      Some (Inr (), files @ map ecr_file (filter (saved start_date end_date) rows), w1)"
    by (subst ecr_pages.simps) (simp add: p s)
  with q o p show ?case by (simp add: page_table_rows_def)
next
  case (Suc n)
  from Suc.prems(1) have ip: "inner_ecr_page (pages i)"
    and br: "ecr_browsable pages (Suc i) n" by simp_all
  from ip obtain u rows c where p: "settle (pages i) = Inr u" "table_rows (pages i) = Inr rows"
    "next_visible (pages i) = Inr True" "next_click (pages i) = Inr c"
    by (cases "settle (pages i)"; cases "table_rows (pages i)"; cases "next_click (pages i)")
       (auto simp: inner_ecr_page_def)
  from Suc.prems(2) p have f1: "list_all fits rows"
    and f2: "list_all fits (ecr_page_rows pages (Suc i) n)"
    by (simp_all add: page_table_rows_def)
  from ecr_rows_fits[OF f1, of start_date end_date files w] obtain w1 where
    s: "ecr_rows start_date end_date rows (files, w) =
          (Inr (), files @ map ecr_file (filter (saved start_date end_date) rows), w1)"
    and q: "result_queue w1 =
          result_queue w @ map announcement (filter (announced start_date end_date) rows)"
    and o: "fs w1 =
          fs w @ map (\<lambda>row. Save_as (ecr_file row)) (filter (saved start_date end_date) rows)"
    by blast
  have step: "ecr_pages start_date end_date pages i (files, w) =
      ecr_pages start_date end_date pages (Suc i)
        (files @ map ecr_file (filter (saved start_date end_date) rows), w1)"
    by (subst ecr_pages.simps) (simp add: p s)
  from Suc.IH[OF br f2, of "files @ map ecr_file (filter (saved start_date end_date) rows)" w1]
  obtain w2 where
    s2: "ecr_pages start_date end_date pages (Suc i)
           (files @ map ecr_file (filter (saved start_date end_date) rows), w1) =
         Some (Inr (), (files @ map ecr_file (filter (saved start_date end_date) rows))
                 @ map ecr_file (filter (saved start_date end_date) (ecr_page_rows pages (Suc i) n)),
               w2)"
    and q2: "result_queue w2 =
         result_queue w1 @ map announcement
           (filter (announced start_date end_date) (ecr_page_rows pages (Suc i) n))"
    and o2: "fs w2 =
         fs w1 @ map (\<lambda>row. Save_as (ecr_file row))
           (filter (saved start_date end_date) (ecr_page_rows pages (Suc i) n))"
    by blast
  from step s2 p have "ecr_pages start_date end_date pages i (files, w) =
      Some (Inr (), files @ map ecr_file
                      (filter (saved start_date end_date) (ecr_page_rows pages i (Suc n))), w2)"
    by (simp add: page_table_rows_def)
  moreover from q q2 p have "result_queue w2 =
      result_queue w @ map announcement
        (filter (announced start_date end_date) (ecr_page_rows pages i (Suc n)))"
    by (simp add: page_table_rows_def)
  moreover from o o2 p have "fs w2 =
      fs w @ map (\<lambda>row. Save_as (ecr_file row))
        (filter (saved start_date end_date) (ecr_page_rows pages i (Suc n)))"
    by (simp add: page_table_rows_def)
  ultimately show ?case by blast
qed

lemma zip_loop_world:
  "result_queue (foldl (\<lambda>w f. fs_do (Remove f) (fs_do (Zip_write z (path_name f)) w)) w files) =
     result_queue w
   \<and> fs (foldl (\<lambda>w f. fs_do (Remove f) (fs_do (Zip_write z (path_name f)) w)) w files) =
     fs w @ concat (map (\<lambda>f. [Zip_write z (path_name f), Remove f]) files)"
  by (induction files arbitrary: w) (simp_all add: fs_do_def)

lemma zip_all_world:
  "files \<noteq> [] \<Longrightarrow>
     result_queue (zip_all z files w) = result_queue w
     \<and> fs (zip_all z files w) = fs w @ archived z files"
  using zip_loop_world[of z "fs_do (Zip_open z) w" files]
  by (simp add: zip_all_def archived_def fs_do_def)

text \<open>The whole task, when the navigation succeeds and the pages can be walked.\<close>

lemma run_ecr_extraction_fits:
  assumes "ecr_nav site = Inr ()"
    and "ecr_browsable (ecr_result_pages site) 0 n"
    and "list_all fits (ecr_page_rows (ecr_result_pages site) 0 n)"
  shows "\<exists>w'. run_ecr_extraction site start_date end_date w = Some (Inr (), w')
     \<and> result_queue w' =
         result_queue w
         @ Status_update ''Starting ECR PDF extraction...''
         # map announcement
             (filter (announced start_date end_date) (ecr_page_rows (ecr_result_pages site) 0 n))
         @ [ecr_info (ecr_zip start_date end_date)
              (map ecr_file
                 (filter (saved start_date end_date) (ecr_page_rows (ecr_result_pages site) 0 n))),
            Status_update ''ECR extraction finished.'']
     \<and> fs w' =
         fs w
         @ Mkdir ''ecr_downloads''
         # map (\<lambda>row. Save_as (ecr_file row))
             (filter (saved start_date end_date) (ecr_page_rows (ecr_result_pages site) 0 n))
         @ archived (ecr_zip start_date end_date)
             (map ecr_file
                (filter (saved start_date end_date) (ecr_page_rows (ecr_result_pages site) 0 n)))"
proof -
  let ?rows = "ecr_page_rows (ecr_result_pages site) 0 n"
  let ?w1 = "fs_do (Mkdir ''ecr_downloads'') (put (Status_update ''Starting ECR PDF extraction...'') w)"
  let ?files = "map ecr_file (filter (saved start_date end_date) ?rows)"
  from ecr_pages_fits[OF assms(2,3), of start_date end_date "[]" ?w1] obtain w2 where
    s: "ecr_pages start_date end_date (ecr_result_pages site) 0 ([], ?w1) =
          Some (Inr (), ?files, w2)"
    and q: "result_queue w2 =
          result_queue ?w1 @ map announcement (filter (announced start_date end_date) ?rows)"
    and o: "fs w2 =
          fs ?w1 @ map (\<lambda>row. Save_as (ecr_file row)) (filter (saved start_date end_date) ?rows)"
    by auto
  show ?thesis
  proof (cases "?files = []")
    case True
    with assms(1) s q o show ?thesis
      by (simp add: run_ecr_extraction_def Let_def put_def fs_do_def ecr_info_def archived_def)
  next
    case False
    from zip_all_world[OF False, of "ecr_zip start_date end_date" w2] False assms(1) s q o
    show ?thesis
      by (simp add: run_ecr_extraction_def Let_def put_def fs_do_def ecr_info_def ecr_zip_def)
  qed
qed

subsection \<open>Reading a wage month written as the specification writes it\<close>

lemma split_none: "sep \<notin> set b \<Longrightarrow> split sep b = [b]"
  by (induction b) auto

lemma split_two: "sep \<notin> set a \<Longrightarrow> sep \<notin> set b \<Longrightarrow> split sep (a @ sep # b) = [a, b]"
  by (induction a) (auto simp: split_none)

lemma digit_is_digit: "d < 10 \<Longrightarrow> digit_chars ! d \<in> set digit_chars"
proof -
  have "length digit_chars = 10" by (simp add: digit_chars_def)
  then show "d < 10 \<Longrightarrow> digit_chars ! d \<in> set digit_chars" by (metis nth_mem)
qed

lemma digit_value_digit:
  assumes "d < 10"
  shows "digit_value (digit_chars ! d) = Some (int d)"
proof -
  have "list_all (\<lambda>d. digit_value (digit_chars ! d) = Some (int d)) [0..<10]" by code_simp
  with assms show ?thesis by (simp add: list_all_iff)
qed

lemma digit_plain:
  assumes "d < 10"
  shows "\<not> is_c_space (digit_chars ! d)" and "digit_chars ! d \<noteq> CHR ''-''"
    and "digit_chars ! d \<noteq> CHR ''+''" and "digit_chars ! d \<noteq> CHR ''_''"
proof -
  have "list_all (\<lambda>c. \<not> is_c_space c \<and> c \<noteq> CHR ''-'' \<and> c \<noteq> CHR ''+'' \<and> c \<noteq> CHR ''_'')
          digit_chars"
    by code_simp
  with digit_is_digit[OF assms]
  show "\<not> is_c_space (digit_chars ! d)" and "digit_chars ! d \<noteq> CHR ''-''"
    and "digit_chars ! d \<noteq> CHR ''+''" and "digit_chars ! d \<noteq> CHR ''_''"
    by (simp_all add: list_all_iff)
qed

lemma int_of_str_four_digits:
  assumes "digit_value c1 = Some a" and "digit_value c2 = Some b" and "digit_value c3 = Some c"
    and "digit_value c4 = Some d"
    and "c1 \<in> set digit_chars" and "c2 \<in> set digit_chars" and "c3 \<in> set digit_chars"
    and "c4 \<in> set digit_chars"
    and "\<not> is_c_space c1" and "\<not> is_c_space c4" and "c1 \<noteq> CHR ''-''" and "c1 \<noteq> CHR ''+''"
    and "c2 \<noteq> CHR ''_''" and "c3 \<noteq> CHR ''_''" and "c4 \<noteq> CHR ''_''"
  shows "int_of_str [c1, c2, c3, c4] = Inr (10 * (10 * (10 * a + b) + c) + d)"
  using assms
  by (simp add: int_of_str_def Let_def literal_value_def List.map_filter_def max_str_digits_def)

lemma four_digits:
  fixes y :: nat
  assumes "y < 10000"
  shows "1000 * (y div 1000 mod 10) + 100 * (y div 100 mod 10) + 10 * (y div 10 mod 10)
           + y mod 10 = y"
proof -
  have a: "y div 100 = y div 10 div 10" "y div 1000 = y div 10 div 10 div 10"
    by (simp_all add: div_mult2_eq[symmetric])
  from assms have b: "y div 10 div 10 div 10 < 10" by (simp add: a(2)[symmetric])
  have c: "y = 10 * (y div 10) + y mod 10" by simp
  have d: "y div 10 = 10 * (y div 10 div 10) + y div 10 mod 10" by simp
  have e: "y div 10 div 10 = 10 * (y div 10 div 10 div 10) + y div 10 div 10 mod 10" by simp
  from b have f: "y div 10 div 10 div 10 mod 10 = y div 10 div 10 div 10" by simp
  show ?thesis unfolding a f using c d e by linarith
qed

lemma int_of_str_yyyy:
  assumes "y < 10000"
  shows "int_of_str (yyyy y) = Inr (int y)"
proof -
  have l: "y div 1000 mod 10 < 10" "y div 100 mod 10 < 10" "y div 10 mod 10 < 10" "y mod 10 < 10"
    by simp_all
  have "int_of_str (yyyy y) =
      Inr (10 * (10 * (10 * int (y div 1000 mod 10) + int (y div 100 mod 10))
                 + int (y div 10 mod 10)) + int (y mod 10))"
    unfolding yyyy_def
    by (rule int_of_str_four_digits)
       (rule digit_value_digit digit_is_digit digit_plain l)+
  also have "10 * (10 * (10 * int (y div 1000 mod 10) + int (y div 100 mod 10))
                 + int (y div 10 mod 10)) + int (y mod 10) =
      int (1000 * (y div 1000 mod 10) + 100 * (y div 100 mod 10) + 10 * (y div 10 mod 10)
             + y mod 10)"
    by simp
  also have "\<dots> = int y" by (simp only: four_digits[OF assms])
  finally show ?thesis .
qed

lemma no_hyphen_yyyy: "CHR ''-'' \<notin> set (yyyy y)"
proof -
  have "y div 1000 mod 10 < 10" "y div 100 mod 10 < 10" "y div 10 mod 10 < 10" "y mod 10 < 10"
    by simp_all
  from this[THEN digit_plain(2)] show ?thesis by (simp add: yyyy_def)
qed

lemma month_names:
  assumes "k < 12"
  shows "title (months ! k) = months ! k" and "CHR ''-'' \<notin> set (months ! k)"
proof -
  have "list_all (\<lambda>s. title s = s \<and> CHR ''-'' \<notin> set s) months" by code_simp
  moreover have "length months = 12" by (simp add: months_def)
  ultimately show "title (months ! k) = months ! k" and "CHR ''-'' \<notin> set (months ! k)"
    using assms by (simp_all add: list_all_length)
qed

lemma wage_date_of_mon_yyyy:
  assumes "1 \<le> m" and "m \<le> 12" and "1 \<le> y" and "y \<le> 9999"
  shows "wage_date_of (mon_yyyy m y) = Inr \<lparr>year = int y, month = int m\<rparr>"
proof -
  from assms have k: "m - 1 < 12" by simp
  from split_two[OF month_names(2)[OF k] no_hyphen_yyyy[of y]]
  have s: "split (CHR ''-'') (mon_yyyy m y) = [months ! (m - 1), yyyy y]"
    by (simp add: mon_yyyy_def)
  from get_month_index_month[OF k month_names(1)[OF k]] assms
  have g: "get_month_index (months ! (m - 1)) = int m" by simp
  from assms have i: "int_of_str (yyyy y) = Inr (int y)" by (intro int_of_str_yyyy) simp
  from assms have "datetime_new (int y) (int m) = Inr \<lparr>year = int y, month = int m\<rparr>"
    by (simp add: datetime_new_def c_int_def)
  with s g i show ?thesis by (simp add: wage_date_of_def)
qed

lemma datetime_le_month_number:
  "valid_month a \<Longrightarrow> valid_month b \<Longrightarrow> datetime_le a b = (month_number a \<le> month_number b)"
  by (auto simp: valid_month_def datetime_le_def month_number_def)

lemma in_range_mon_yyyy:
  assumes "1 \<le> m" and "m \<le> 12" and "1 \<le> y" and "y \<le> 9999"
    and "valid_month start_date" and "valid_month end_date"
  shows "in_range start_date end_date (mon_yyyy m y) =
           (month_number start_date \<le> 12 * int y + int m
            \<and> 12 * int y + int m \<le> month_number end_date)"
proof -
  let ?d = "\<lparr>year = int y, month = int m\<rparr>"
  from assms have v: "valid_month ?d" by (simp add: valid_month_def)
  have n: "month_number ?d = 12 * int y + int m" by (simp add: month_number_def)
  from wage_date_of_mon_yyyy[OF assms(1-4)]
    datetime_le_month_number[OF assms(5) v] datetime_le_month_number[OF v assms(6)] n
  show ?thesis by (simp add: in_range_def)
qed

text \<open>A wage month that raises \<open>ValueError\<close> has a year that fits, and is not in range.\<close>

lemma value_error_fits:
  assumes "wage_month_cell row = Inr wage_month_str"
    and "wage_date_of wage_month_str = Inl (ValueError msg)"
  shows "fits row"
proof (cases "\<exists>month_str year_str. split (CHR ''-'') wage_month_str = [month_str, year_str]")
  case False
  with assms(1) show ?thesis by (auto simp: fits_def split: list.splits)
next
  case True
  then obtain month_str year_str where s: "split (CHR ''-'') wage_month_str = [month_str, year_str]"
    by blast
  show ?thesis
  proof (cases "int_of_str year_str")
    case (Inl e)
    with assms(1) s show ?thesis by (simp add: fits_def year_in_32_bits_def)
  next
    case (Inr y)
    with assms(2) s have "datetime_new y (get_month_index month_str) = Inl (ValueError msg)"
      by (simp add: wage_date_of_def)
    then have "- 2147483648 \<le> y \<and> y \<le> 2147483647"
      by (auto simp: datetime_new_def c_int_def split: if_splits)
    with assms(1) s Inr show ?thesis by (simp add: fits_def year_in_32_bits_def)
  qed
qed

subsection \<open>The rows that are downloaded\<close>

text \<open>
  C1, as amended. When the navigation succeeds, the result pages can be walked (any
  number of them) and the year of every wage month fits in 32 bits, the task returns and,
  over all the rows of all the pages in order: it has announced the download of exactly
  the rows whose wage month and status can be read, whose status, stripped, is
  \<open>Payment Confirmed\<close>, whose wage month is in the range and whose TRRN can be read; it
  has saved the statement of exactly those of them that have a link in the tenth cell and
  whose download returns, and it has archived these files. No row ends the loops. The
  wage month \<open>Mon-YYYY\<close> of the m-th month of the year y is read as that month, and it
  is in the range exactly when the month lies between the start month and the end month,
  both included. A row whose wage month raises \<open>ValueError\<close> fits, and is neither
  announced nor saved.
\<close>

theorem ecr_download_iff_qualifies:
  "(ecr_nav site = Inr () \<and> ecr_browsable (ecr_result_pages site) 0 n
      \<and> list_all fits (ecr_page_rows (ecr_result_pages site) 0 n) \<longrightarrow>
      (\<exists>w'. run_ecr_extraction site start_date end_date w = Some (Inr (), w')
         \<and> result_queue w' =
             result_queue w
             @ Status_update ''Starting ECR PDF extraction...''
             # map announcement
                 (filter (announced start_date end_date)
                    (ecr_page_rows (ecr_result_pages site) 0 n))
             @ [ecr_info (ecr_zip start_date end_date)
                  (map ecr_file
                     (filter (saved start_date end_date)
                        (ecr_page_rows (ecr_result_pages site) 0 n))),
                Status_update ''ECR extraction finished.'']
         \<and> fs w' =
             fs w
             @ Mkdir ''ecr_downloads''
             # map Save_as
                 (map ecr_file
                    (filter (saved start_date end_date)
                       (ecr_page_rows (ecr_result_pages site) 0 n)))
             @ archived (ecr_zip start_date end_date)
                 (map ecr_file
                    (filter (saved start_date end_date)
                       (ecr_page_rows (ecr_result_pages site) 0 n)))))
   \<and> (1 \<le> m \<and> m \<le> 12 \<and> 1 \<le> y \<and> y \<le> 9999
        \<and> valid_month start_date \<and> valid_month end_date \<longrightarrow>
        wage_date_of (mon_yyyy m y) = Inr \<lparr>year = int y, month = int m\<rparr>
        \<and> in_range start_date end_date (mon_yyyy m y) =
            (month_number start_date \<le> 12 * int y + int m
             \<and> 12 * int y + int m \<le> month_number end_date))
   \<and> (wage_month_cell row = Inr wage_month_str
        \<and> wage_date_of wage_month_str = Inl (ValueError msg) \<longrightarrow>
        fits row \<and> \<not> announced start_date end_date row \<and> \<not> saved start_date end_date row)"
proof -
  have a: "\<exists>w'. run_ecr_extraction site start_date end_date w = Some (Inr (), w')
         \<and> result_queue w' =
             result_queue w
             @ Status_update ''Starting ECR PDF extraction...''
             # map announcement
                 (filter (announced start_date end_date)
                    (ecr_page_rows (ecr_result_pages site) 0 n))
             @ [ecr_info (ecr_zip start_date end_date)
                  (map ecr_file
                     (filter (saved start_date end_date)
                        (ecr_page_rows (ecr_result_pages site) 0 n))),
                Status_update ''ECR extraction finished.'']
         \<and> fs w' =
             fs w
             @ Mkdir ''ecr_downloads''
             # map Save_as
                 (map ecr_file
                    (filter (saved start_date end_date)
                       (ecr_page_rows (ecr_result_pages site) 0 n)))
             @ archived (ecr_zip start_date end_date)
                 (map ecr_file
                    (filter (saved start_date end_date)
                       (ecr_page_rows (ecr_result_pages site) 0 n)))"
    if "ecr_nav site = Inr ()" and "ecr_browsable (ecr_result_pages site) 0 n"
      and "list_all fits (ecr_page_rows (ecr_result_pages site) 0 n)"
    using run_ecr_extraction_fits[OF that, of start_date end_date w] by (simp add: comp_def)
  have b: "wage_date_of (mon_yyyy m y) = Inr \<lparr>year = int y, month = int m\<rparr>
        \<and> in_range start_date end_date (mon_yyyy m y) =
            (month_number start_date \<le> 12 * int y + int m
             \<and> 12 * int y + int m \<le> month_number end_date)"
    if "1 \<le> m" and "m \<le> 12" and "1 \<le> y" and "y \<le> 9999"
      and "valid_month start_date" and "valid_month end_date"
    using wage_date_of_mon_yyyy[OF that(1-4)] in_range_mon_yyyy[OF that] by simp
  have c: "fits row \<and> \<not> announced start_date end_date row \<and> \<not> saved start_date end_date row"
    if "wage_month_cell row = Inr wage_month_str"
      and "wage_date_of wage_month_str = Inl (ValueError msg)"
    using value_error_fits[OF that] that
    by (simp add: saved_def announced_def qualifies_def in_range_def split: sum.splits)
  from a b c show ?thesis by blast
qed

text \<open>
  Two pages for the range January 2024 to March 2024. On the first: December 2023 (out),
  January 2024 (the start month: in), February 2024 with the status \<open>Pending\<close> (out), a
  month name that does not exist (out). On the second: March 2024 (the end month: in),
  April 2024 (out), February 2024 with a download that does not arrive (announced, not
  saved). And the four months around the bounds, written as the specification writes them.
\<close>

theorem ecr_download_iff_qualifies_witness:
  "ecr_nav (ecr_two_pages
       [ecr_row_of ''Dec-2023'' ''Payment Confirmed'', ecr_row_of ''Jan-2024'' ''Payment Confirmed'',
        ecr_row_of ''Feb-2024'' ''Pending'', ecr_row_of ''Xyz-2024'' ''Payment Confirmed'']
       [ecr_row_of ''Mar-2024'' ''Payment Confirmed'', ecr_row_of ''Apr-2024'' ''Payment Confirmed'',
        ecr_row_timeout ''Feb-2024'' ''Payment Confirmed'']) = Inr ()
   \<and> ecr_browsable (ecr_result_pages (ecr_two_pages
       [ecr_row_of ''Dec-2023'' ''Payment Confirmed'', ecr_row_of ''Jan-2024'' ''Payment Confirmed'',
        ecr_row_of ''Feb-2024'' ''Pending'', ecr_row_of ''Xyz-2024'' ''Payment Confirmed'']
       [ecr_row_of ''Mar-2024'' ''Payment Confirmed'', ecr_row_of ''Apr-2024'' ''Payment Confirmed'',
        ecr_row_timeout ''Feb-2024'' ''Payment Confirmed''])) 0 1
   \<and> list_all fits (ecr_page_rows (ecr_result_pages (ecr_two_pages
       [ecr_row_of ''Dec-2023'' ''Payment Confirmed'', ecr_row_of ''Jan-2024'' ''Payment Confirmed'',
        ecr_row_of ''Feb-2024'' ''Pending'', ecr_row_of ''Xyz-2024'' ''Payment Confirmed'']
       [ecr_row_of ''Mar-2024'' ''Payment Confirmed'', ecr_row_of ''Apr-2024'' ''Payment Confirmed'',
        ecr_row_timeout ''Feb-2024'' ''Payment Confirmed''])) 0 1)
   \<and> (\<exists>w'. run_ecr_extraction (ecr_two_pages
       [ecr_row_of ''Dec-2023'' ''Payment Confirmed'', ecr_row_of ''Jan-2024'' ''Payment Confirmed'',
        ecr_row_of ''Feb-2024'' ''Pending'', ecr_row_of ''Xyz-2024'' ''Payment Confirmed'']
       [ecr_row_of ''Mar-2024'' ''Payment Confirmed'', ecr_row_of ''Apr-2024'' ''Payment Confirmed'',
        ecr_row_timeout ''Feb-2024'' ''Payment Confirmed'']) jan_2024 mar_2024 world0 =
         Some (Inr (), w')
       \<and> result_queue w' =
           [Status_update ''Starting ECR PDF extraction...'',
            Status_update ''Downloading PDF for T1...'',
            Status_update ''Downloading PDF for T1...'',
            Status_update ''Downloading PDF for T2...'',
            Info ''ECR PDFs zipped to ECR_Statements_202401_to_202403.zip'',
            Status_update ''ECR extraction finished.'']
       \<and> fs w' =
           [Mkdir ''ecr_downloads'',
            Save_as ''ecr_downloads/T1_Jan-2024.pdf'', Save_as ''ecr_downloads/T1_Mar-2024.pdf'',
            Zip_open ''ECR_Statements_202401_to_202403.zip'',
            Zip_write ''ECR_Statements_202401_to_202403.zip'' ''T1_Jan-2024.pdf'',
            Remove ''ecr_downloads/T1_Jan-2024.pdf'',
            Zip_write ''ECR_Statements_202401_to_202403.zip'' ''T1_Mar-2024.pdf'',
            Remove ''ecr_downloads/T1_Mar-2024.pdf''])
   \<and> valid_month jan_2024 \<and> valid_month mar_2024
   \<and> mon_yyyy 12 2023 = ''Dec-2023'' \<and> \<not> in_range jan_2024 mar_2024 ''Dec-2023''
   \<and> mon_yyyy 1 2024 = ''Jan-2024'' \<and> in_range jan_2024 mar_2024 ''Jan-2024''
   \<and> mon_yyyy 3 2024 = ''Mar-2024'' \<and> in_range jan_2024 mar_2024 ''Mar-2024''
   \<and> mon_yyyy 4 2024 = ''Apr-2024'' \<and> \<not> in_range jan_2024 mar_2024 ''Apr-2024''
   \<and> wage_month_cell (ecr_row_of ''Xyz-2024'' ''Payment Confirmed'') = Inr ''Xyz-2024''
   \<and> wage_date_of ''Xyz-2024'' = Inl (ValueError ''month must be in 1..12'')
   \<and> \<not> announced jan_2024 mar_2024 (ecr_row_of ''Xyz-2024'' ''Payment Confirmed'')"
proof -
  let ?site = "ecr_two_pages
       [ecr_row_of ''Dec-2023'' ''Payment Confirmed'', ecr_row_of ''Jan-2024'' ''Payment Confirmed'',
        ecr_row_of ''Feb-2024'' ''Pending'', ecr_row_of ''Xyz-2024'' ''Payment Confirmed'']
       [ecr_row_of ''Mar-2024'' ''Payment Confirmed'', ecr_row_of ''Apr-2024'' ''Payment Confirmed'',
        ecr_row_timeout ''Feb-2024'' ''Payment Confirmed'']"
  let ?z = "''ECR_Statements_202401_to_202403.zip''"
  have h1: "ecr_nav ?site = Inr ()" by (simp add: ecr_two_pages_def)
  have h2: "ecr_browsable (ecr_result_pages ?site) 0 1" by code_simp
  have h3: "list_all fits (ecr_page_rows (ecr_result_pages ?site) 0 1)" by code_simp
  have e1: "map announcement (filter (announced jan_2024 mar_2024)
              (ecr_page_rows (ecr_result_pages ?site) 0 1)) =
            [Status_update ''Downloading PDF for T1...'',
             Status_update ''Downloading PDF for T1...'',
             Status_update ''Downloading PDF for T2...'']"
    by code_simp
  have e2: "map ecr_file (filter (saved jan_2024 mar_2024)
              (ecr_page_rows (ecr_result_pages ?site) 0 1)) =
            [''ecr_downloads/T1_Jan-2024.pdf'', ''ecr_downloads/T1_Mar-2024.pdf'']"
    by code_simp
  have e3: "ecr_zip jan_2024 mar_2024 = ?z" by code_simp
  have e4: "ecr_info ?z [''ecr_downloads/T1_Jan-2024.pdf'', ''ecr_downloads/T1_Mar-2024.pdf''] =
            Info ''ECR PDFs zipped to ECR_Statements_202401_to_202403.zip''"
    by code_simp
  have e5: "archived ?z [''ecr_downloads/T1_Jan-2024.pdf'', ''ecr_downloads/T1_Mar-2024.pdf''] =
            [Zip_open ?z, Zip_write ?z ''T1_Jan-2024.pdf'', Remove ''ecr_downloads/T1_Jan-2024.pdf'',
             Zip_write ?z ''T1_Mar-2024.pdf'', Remove ''ecr_downloads/T1_Mar-2024.pdf'']"
    by code_simp
  have v: "valid_month jan_2024" "valid_month mar_2024"
    by (simp_all add: valid_month_def jan_2024_def mar_2024_def)
  have n: "month_number jan_2024 = 24289" "month_number mar_2024 = 24291"
    by (simp_all add: month_number_def jan_2024_def mar_2024_def)
  have s: "mon_yyyy 12 2023 = ''Dec-2023''" "mon_yyyy 1 2024 = ''Jan-2024''"
    "mon_yyyy 3 2024 = ''Mar-2024''" "mon_yyyy 4 2024 = ''Apr-2024''"
    by code_simp+
  have x: "wage_month_cell (ecr_row_of ''Xyz-2024'' ''Payment Confirmed'') = Inr ''Xyz-2024''"
    by (simp add: ecr_row_of_def)
  have d: "wage_date_of ''Xyz-2024'' = Inl (ValueError ''month must be in 1..12'')" by code_simp
  note t = ecr_download_iff_qualifies[where start_date = jan_2024 and end_date = mar_2024]
  from t[where site = ?site and n = 1 and w = world0, THEN conjunct1] h1 h2 h3
  have r: "\<exists>w'. run_ecr_extraction ?site jan_2024 mar_2024 world0 = Some (Inr (), w')
       \<and> result_queue w' =
           [Status_update ''Starting ECR PDF extraction...'',
            Status_update ''Downloading PDF for T1...'',
            Status_update ''Downloading PDF for T1...'',
            Status_update ''Downloading PDF for T2...'',
            Info ''ECR PDFs zipped to ECR_Statements_202401_to_202403.zip'',
            Status_update ''ECR extraction finished.'']
       \<and> fs w' =
           [Mkdir ''ecr_downloads'',
            Save_as ''ecr_downloads/T1_Jan-2024.pdf'', Save_as ''ecr_downloads/T1_Mar-2024.pdf'',
            Zip_open ?z, Zip_write ?z ''T1_Jan-2024.pdf'', Remove ''ecr_downloads/T1_Jan-2024.pdf'',
            Zip_write ?z ''T1_Mar-2024.pdf'', Remove ''ecr_downloads/T1_Mar-2024.pdf'']"
    unfolding e1 e2 e3 e4 e5 by (simp add: world0_def)
  from t[where m = 12 and y = 2023, THEN conjunct2, THEN conjunct1] v n
  have b1: "\<not> in_range jan_2024 mar_2024 ''Dec-2023''" unfolding s by simp
  from t[where m = 1 and y = 2024, THEN conjunct2, THEN conjunct1] v n
  have b2: "in_range jan_2024 mar_2024 ''Jan-2024''" unfolding s by simp
  from t[where m = 3 and y = 2024, THEN conjunct2, THEN conjunct1] v n
  have b3: "in_range jan_2024 mar_2024 ''Mar-2024''" unfolding s by simp
  from t[where m = 4 and y = 2024, THEN conjunct2, THEN conjunct1] v n
  have b4: "\<not> in_range jan_2024 mar_2024 ''Apr-2024''" unfolding s by simp
  from t[where row = "ecr_row_of ''Xyz-2024'' ''Payment Confirmed''"
      and wage_month_str = "''Xyz-2024''" and msg = "''month must be in 1..12''",
      THEN conjunct2, THEN conjunct2] x d
  have c: "\<not> announced jan_2024 mar_2024 (ecr_row_of ''Xyz-2024'' ''Payment Confirmed'')"
    by blast
  from h1 h2 h3 r v s b1 b2 b3 b4 x d c show ?thesis by blast
qed

text \<open>
  The claim as stated fails in both directions. A row with the status
  \<open>Payment Confirmed\<close> and the wage month \<open>Feb-2024\<close>, inside the range, but with no
  link in its tenth cell: the download is announced, nothing is downloaded and the task
  reports that no statement matched. And a row whose status cell reads
  \<open>Payment Confirmed\<close> with a space before and a line break after it, which is not the
  text \<open>Payment Confirmed\<close>: its statement is downloaded and archived.
\<close>

theorem ecr_download_counterexample:
  "run_ecr_extraction (ecr_one_page [ecr_row_without_link ''Feb-2024'' ''Payment Confirmed''])
     jan_2024 mar_2024 world0 =
     Some (Inr (),
           \<lparr>result_queue = [Status_update ''Starting ECR PDF extraction...'',
                             Status_update ''Downloading PDF for T1...'',
                             Info ''No matching ECR statements found.'',
                             Status_update ''ECR extraction finished.''],
            log = [], fs = [Mkdir ''ecr_downloads'']\<rparr>)
   \<and> status_cell (ecr_row_of ''Feb-2024'' (CHR '' '' # ''Payment Confirmed'' @ [CHR 10]))
       \<noteq> Inr ''Payment Confirmed''
   \<and> run_ecr_extraction
       (ecr_one_page [ecr_row_of ''Feb-2024'' (CHR '' '' # ''Payment Confirmed'' @ [CHR 10])])
       jan_2024 mar_2024 world0 =
     Some (Inr (),
           \<lparr>result_queue = [Status_update ''Starting ECR PDF extraction...'',
                             Status_update ''Downloading PDF for T1...'',
                             Info ''ECR PDFs zipped to ECR_Statements_202401_to_202403.zip'',
                             Status_update ''ECR extraction finished.''],
            log = [],
            fs = [Mkdir ''ecr_downloads'', Save_as ''ecr_downloads/T1_Feb-2024.pdf'',
                  Zip_open ''ECR_Statements_202401_to_202403.zip'',
                  Zip_write ''ECR_Statements_202401_to_202403.zip'' ''T1_Feb-2024.pdf'',
                  Remove ''ecr_downloads/T1_Feb-2024.pdf'']\<rparr>)"
proof -
  have a: "run_ecr_extraction (ecr_one_page [ecr_row_without_link ''Feb-2024'' ''Payment Confirmed''])
     jan_2024 mar_2024 world0 =
     Some (Inr (),
           \<lparr>result_queue = [Status_update ''Starting ECR PDF extraction...'',
                             Status_update ''Downloading PDF for T1...'',
                             Info ''No matching ECR statements found.'',
                             Status_update ''ECR extraction finished.''],
            log = [], fs = [Mkdir ''ecr_downloads'']\<rparr>)"
    by code_simp
  have b: "status_cell (ecr_row_of ''Feb-2024'' (CHR '' '' # ''Payment Confirmed'' @ [CHR 10]))
       \<noteq> Inr ''Payment Confirmed''"
    by (simp add: ecr_row_of_def)
  have c: "run_ecr_extraction
       (ecr_one_page [ecr_row_of ''Feb-2024'' (CHR '' '' # ''Payment Confirmed'' @ [CHR 10])])
       jan_2024 mar_2024 world0 =
     Some (Inr (),
           \<lparr>result_queue = [Status_update ''Starting ECR PDF extraction...'',
                             Status_update ''Downloading PDF for T1...'',
                             Info ''ECR PDFs zipped to ECR_Statements_202401_to_202403.zip'',
                             Status_update ''ECR extraction finished.''],
            log = [],
            fs = [Mkdir ''ecr_downloads'', Save_as ''ecr_downloads/T1_Feb-2024.pdf'',
                  Zip_open ''ECR_Statements_202401_to_202403.zip'',
                  Zip_write ''ECR_Statements_202401_to_202403.zip'' ''T1_Feb-2024.pdf'',
                  Remove ''ecr_downloads/T1_Feb-2024.pdf'']\<rparr>)"
    by code_simp
  from a b c show ?thesis by blast
qed

subsection \<open>A month name that is not one\<close>



section \<open>The member service details\<close>

subsection \<open>What the task adds to the world\<close>

lemma msd_status_mono: "msd_status us ev \<Longrightarrow> set us \<subseteq> set vs \<Longrightarrow> msd_status vs ev"
  by (auto simp: msd_status_def)

lemma msd_status_plain:
  "msd_status uans ev \<Longrightarrow>
     \<not> is_error ev \<and> ev \<noteq> Status_update ''Member Service Detail extraction finished.''"
  by (auto simp: msd_status_def)

text \<open>The loop over the pages of one UAN writes no file and puts status updates only.\<close>

lemma msd_pages_extends:
  assumes "msd_pages uan pages i all_rows_data w = Some res"
  shows "fs (snd res) = fs w
       \<and> (\<exists>es. result_queue (snd res) = result_queue w @ es \<and> list_all (msd_status [uan]) es)"
  using assms
proof (induction uan pages i all_rows_data w res rule: msd_pages.raw_induct[rotated 1, consumes 1])
  case (1 msd_pages' uan pages i all_rows_data w res)
  show ?case
  proof (cases "grid_rows (pages i)")
    case (Inl m)
    with 1(2) show ?thesis by auto
  next
    case rows: (Inr rows)
    show ?thesis
    proof (cases "if rows = [] \<and> all_rows_data = []
            then (case pager_text (pages i) of
                    Inl m \<Rightarrow> Inl m
                  | Inr t \<Rightarrow> Inr (contains ''Member not found'' t))
            else Inr False")
      case (Inl m)
      with 1(2) rows show ?thesis by auto
    next
      case nf: (Inr not_found)
      show ?thesis
      proof (cases not_found)
        case True
        with 1(2) rows nf show ?thesis by (auto simp: logging_def)
      next
        case False
        show ?thesis
        proof (cases "msd_rows rows all_rows_data")
          case (Inl m)
          with 1(2) rows nf False show ?thesis by auto
        next
          case data: (Inr all_rows_data')
          show ?thesis
          proof (cases "next_class (pages i)")
            case (Inl m)
            with 1(2) rows nf False data show ?thesis by auto
          next
            case cls: (Inr cls)
            show ?thesis
            proof (cases "contains ''ui-state-disabled'' (case cls of None \<Rightarrow> [] | Some c \<Rightarrow> c)")
              case True
              with 1(2) rows nf False data cls show ?thesis by auto
            next
              case enabled: False
              show ?thesis
              proof (cases "next_page (pages i)")
                case (Inl m)
                with 1(2) rows nf False data cls enabled show ?thesis
                  by (auto simp: put_def msd_status_def)
              next
                case (Inr u)
                with 1(2) rows nf False data cls enabled
                have "msd_pages' uan pages (Suc i) all_rows_data'
                   (put (Status_update (''UAN '' @ uan
                           @ '': Found multiple pages, going to next page...'')) w) = Some res"
                  by auto
                from 1(1)[OF this] show ?thesis
                  by (auto simp: put_def msd_status_def)
              qed
            qed
          qed
        qed
      qed
    qed
  qed
qed

text \<open>
  One turn of the loop over the UANs: the events it puts are status updates about this
  UAN, and the only file operation it can do is writing the table of the UAN, whose path
  it appends to \<open>generated_files\<close>.
\<close>

lemma msd_uan_extends:
  assumes "msd_uan uan srch (generated_files, w) = Some (r, generated_files', w')"
  shows "\<exists>es ops paths.
           result_queue w' = result_queue w @ es \<and> list_all (msd_status [uan]) es
         \<and> fs w' = fs w @ ops \<and> generated_files' = generated_files @ paths
         \<and> map excel_path ops = map Some paths"
proof -
  let ?w1 = "put (Status_update (''Processing UAN: '' @ uan)) w"
  have w1: "result_queue ?w1 = result_queue w @ [Status_update (''Processing UAN: '' @ uan)]"
    "fs ?w1 = fs w" by (simp_all add: put_def)
  have s: "msd_status [uan] (Status_update (''Processing UAN: '' @ uan))"
    by (simp add: msd_status_def)
  show ?thesis
  proof (cases "submit srch")
    case (Inl m)
    with assms w1 s show ?thesis by (auto simp: msd_uan_def Let_def)
  next
    case sub: (Inr u)
    show ?thesis
    proof (cases "header_texts srch")
      case (Inl m)
      with assms sub w1 s show ?thesis by (auto simp: msd_uan_def Let_def)
    next
      case hs: (Inr hs)
      from assms sub hs obtain res where
        p: "msd_pages uan (grid_pages srch) 0 [] ?w1 = Some res"
        by (auto simp: msd_uan_def Let_def split: option.splits)
      obtain r2 w2 where res: "res = (r2, w2)" by (cases res)
      from msd_pages_extends[OF p] res w1 obtain es where
        e: "fs w2 = fs w"
        "result_queue w2 = result_queue w @ Status_update (''Processing UAN: '' @ uan) # es"
        "list_all (msd_status [uan]) es"
        by auto
      from assms sub hs p res e s show ?thesis
        by (auto simp: msd_uan_def Let_def fs_do_def logging_def
            split: sum.splits if_splits)
    qed
  qed
qed

lemma msd_uans_extends:
  assumes "msd_uans searches i uans (generated_files, w) = Some (r, generated_files', w')"
  shows "\<exists>es ops paths.
           result_queue w' = result_queue w @ es \<and> list_all (msd_status uans) es
         \<and> fs w' = fs w @ ops \<and> generated_files' = generated_files @ paths
         \<and> map excel_path ops = map Some paths"
  using assms
proof (induction uans arbitrary: i generated_files w)
  case Nil
  then show ?case by simp
next
  case (Cons uan uans)
  from Cons.prems obtain r1 g1 w1 where
    u: "msd_uan uan (searches i) (generated_files, w) = Some (r1, g1, w1)"
    by (auto split: option.splits)
  from msd_uan_extends[OF u] obtain es1 ops1 paths1 where
    e1: "result_queue w1 = result_queue w @ es1" "list_all (msd_status [uan]) es1"
    "fs w1 = fs w @ ops1" "g1 = generated_files @ paths1"
    "map excel_path ops1 = map Some paths1"
    by blast
  from e1(2) have s1: "list_all (msd_status (uan # uans)) es1"
    by (auto simp: list_all_iff intro: msd_status_mono)
  show ?case
  proof (cases r1)
    case (Inl e)
    with Cons.prems u have "r = Inl e" "generated_files' = g1" "w' = w1" by simp_all
    with e1 s1 show ?thesis by blast
  next
    case (Inr x)
    with Cons.prems u have
      "msd_uans searches (Suc i) uans (g1, w1) = Some (r, generated_files', w')"
      by simp
    from Cons.IH[OF this] obtain es2 ops2 paths2 where
      e2: "result_queue w' = result_queue w1 @ es2" "list_all (msd_status uans) es2"
      "fs w' = fs w1 @ ops2" "generated_files' = g1 @ paths2"
      "map excel_path ops2 = map Some paths2"
      by blast
    from e2(2) have s2: "list_all (msd_status (uan # uans)) es2"
      by (auto simp: list_all_iff intro: msd_status_mono)
    have "result_queue w' = result_queue w @ (es1 @ es2)"
      "list_all (msd_status (uan # uans)) (es1 @ es2)"
      "fs w' = fs w @ (ops1 @ ops2)" "generated_files' = generated_files @ (paths1 @ paths2)"
      "map excel_path (ops1 @ ops2) = map Some (paths1 @ paths2)"
      using e1 e2 s1 s2 by simp_all
    then show ?thesis by blast
  qed
qed

text \<open>Once a turn has raised, the UANs behind it do not matter.\<close>

lemma msd_uans_append:
  "msd_uans searches i uans st = Some (Inl e, st') \<Longrightarrow>
     msd_uans searches i (uans @ rest) st = Some (Inl e, st')"
proof (induction uans arbitrary: i st)
  case Nil
  then show ?case by simp
next
  case (Cons uan uans)
  then show ?case by (auto split: option.splits sum.splits)
qed

lemma msd_try_extends:
  assumes "msd_try site uans w = Some (r, generated_files, w')"
  shows "\<exists>es ops.
           result_queue w' = result_queue w @ es \<and> list_all (msd_status uans) es
         \<and> fs w' = fs w @ ops \<and> map excel_path ops = map Some generated_files"
proof (cases "msd_nav site")
  case (Inl m)
  with assms show ?thesis by (auto simp: msd_try_def Let_def put_def msd_status_def)
next
  case (Inr u)
  let ?w1 = "put (Status_update ''Navigating to Member Service Details page...'') w"
  from assms Inr have
    "msd_uans (msd_searches site) 0 uans ([], ?w1) = Some (r, generated_files, w')"
    by (simp add: msd_try_def Let_def)
  from msd_uans_extends[OF this] obtain es ops paths where
    e: "result_queue w' = result_queue ?w1 @ es" "list_all (msd_status uans) es"
    "fs w' = fs ?w1 @ ops" "generated_files = [] @ paths"
    "map excel_path ops = map Some paths"
    by blast
  have "result_queue w' = result_queue w
          @ (Status_update ''Navigating to Member Service Details page...'' # es)"
    "list_all (msd_status uans)
       (Status_update ''Navigating to Member Service Details page...'' # es)"
    "fs w' = fs w @ ops" "map excel_path ops = map Some generated_files"
    using e by (simp_all add: put_def msd_status_def)
  then show ?thesis by blast
qed

lemma msd_try_append:
  "msd_try site uans w = Some (Inl e, st') \<Longrightarrow> msd_try site (uans @ rest) w = Some (Inl e, st')"
  by (auto simp: msd_try_def Let_def msd_uans_append split: sum.splits)

subsection \<open>A Playwright error inside the task\<close>

text \<open>
  C10. When the navigation or the loop over the UANs raises a \<open>PlaywrightError\<close> (the
  body of the \<open>try\<close> ends with it, in the world \<open>w\<close>), \<open>run_msd_extraction\<close>
  returns normally with that world and the one event
  \<open>('error', "An error occurred during MSD extraction: ...")\<close> put last. Before it the
  task has put its first status update and then only status updates about the navigation
  and the UANs: no other error event, and not the final
  \<open>Member Service Detail extraction finished.\<close> After the creation of the directory the
  only file operations are the writing of the tables listed in \<open>generated_files\<close>: no
  archive is opened, no file and no directory is removed. UANs requested behind the one
  that failed change nothing.
\<close>

theorem msd_playwright_error_ends_task:
  assumes "msd_try site uans
             (fs_do (Mkdir ''msd_excel_files'')
                (put (Status_update ''Starting Member Service Detail extraction...'') w0))
           = Some (Inl (PlaywrightError m), generated_files, w)"
  shows "run_msd_extraction site uans w0 =
           Some (Inr (), w\<lparr>result_queue := result_queue w
                   @ [Error (''An error occurred during MSD extraction: '' @ m)]\<rparr>)
       \<and> (\<exists>es. result_queue w =
                  result_queue w0
                  @ Status_update ''Starting Member Service Detail extraction...'' # es
                \<and> list_all (msd_status uans) es
                \<and> filter is_error es = []
                \<and> Status_update ''Member Service Detail extraction finished.'' \<notin> set es)
       \<and> (\<exists>ops. fs w = fs w0 @ Mkdir ''msd_excel_files'' # ops
                \<and> map excel_path ops = map Some generated_files)
       \<and> run_msd_extraction site (uans @ rest) w0 = run_msd_extraction site uans w0"
proof -
  let ?w1 = "fs_do (Mkdir ''msd_excel_files'')
                (put (Status_update ''Starting Member Service Detail extraction...'') w0)"
  have a: "run_msd_extraction site uans w0 =
           Some (Inr (), w\<lparr>result_queue := result_queue w
                   @ [Error (''An error occurred during MSD extraction: '' @ m)]\<rparr>)"
    using assms by (simp add: run_msd_extraction_def put_def)
  from msd_try_extends[OF assms] obtain es ops where
    e: "result_queue w = result_queue ?w1 @ es" "list_all (msd_status uans) es"
    "fs w = fs ?w1 @ ops" "map excel_path ops = map Some generated_files"
    by blast
  from e(2) have p: "filter is_error es = []"
    "Status_update ''Member Service Detail extraction finished.'' \<notin> set es"
    using msd_status_plain by (auto simp: list_all_iff filter_empty_conv)
  from e(1) have q: "result_queue w =
      result_queue w0 @ Status_update ''Starting Member Service Detail extraction...'' # es"
    by (simp add: fs_do_def put_def)
  from e(3) have f: "fs w = fs w0 @ Mkdir ''msd_excel_files'' # ops"
    by (simp add: fs_do_def put_def)
  have r: "run_msd_extraction site (uans @ rest) w0 = run_msd_extraction site uans w0"
    using msd_try_append[OF assms, of rest] assms by (simp add: run_msd_extraction_def)
  from a q e(2) p f e(4) r show ?thesis by blast
qed

text \<open>
  A run of three UANs: the table of the first is written, a cell of the second can no
  longer be read, the third is not searched for.
\<close>

theorem msd_playwright_error_ends_task_witness:
  "msd_try (msd_site_of [msd_grid [''No'', ''Name'', ''Date of Joining''] [asha_row],
                          msd_grid [''No'', ''Name'', ''Date of Joining''] [detached_row]])
       [''100'', ''200'']
       (fs_do (Mkdir ''msd_excel_files'')
          (put (Status_update ''Starting Member Service Detail extraction...'') world0)) =
     Some (Inl (PlaywrightError ''Element is not attached to the DOM''),
           [''msd_excel_files/100.xlsx''],
           \<lparr>result_queue = [Status_update ''Starting Member Service Detail extraction...'',
                             Status_update ''Navigating to Member Service Details page...'',
                             Status_update ''Processing UAN: 100'',
                             Status_update ''Processing UAN: 200''],
            log = [(INFO, ''Saved service details for UAN 100 to msd_excel_files/100.xlsx'')],
            fs = [Mkdir ''msd_excel_files'',
                  To_excel ''msd_excel_files/100.xlsx''
                    ([''Name'', ''Date of Joining''], [[Some ''Asha Rao'', Some ''01/04/2019'']])]\<rparr>)
   \<and> run_msd_extraction
       (msd_site_of [msd_grid [''No'', ''Name'', ''Date of Joining''] [asha_row],
                     msd_grid [''No'', ''Name'', ''Date of Joining''] [detached_row]])
       ([''100'', ''200''] @ [''300'']) world0 =
     Some (Inr (),
           \<lparr>result_queue = [Status_update ''Starting Member Service Detail extraction...'',
                             Status_update ''Navigating to Member Service Details page...'',
                             Status_update ''Processing UAN: 100'',
                             Status_update ''Processing UAN: 200'',
                             Error ''An error occurred during MSD extraction: Element is not attached to the DOM''],
            log = [(INFO, ''Saved service details for UAN 100 to msd_excel_files/100.xlsx'')],
            fs = [Mkdir ''msd_excel_files'',
                  To_excel ''msd_excel_files/100.xlsx''
                    ([''Name'', ''Date of Joining''], [[Some ''Asha Rao'', Some ''01/04/2019'']])]\<rparr>)"
proof -
  let ?site = "msd_site_of [msd_grid [''No'', ''Name'', ''Date of Joining''] [asha_row],
                            msd_grid [''No'', ''Name'', ''Date of Joining''] [detached_row]]"
  let ?w = "\<lparr>result_queue = [Status_update ''Starting Member Service Detail extraction...'',
                             Status_update ''Navigating to Member Service Details page...'',
                             Status_update ''Processing UAN: 100'',
                             Status_update ''Processing UAN: 200''],
            log = [(INFO, ''Saved service details for UAN 100 to msd_excel_files/100.xlsx'')],
            fs = [Mkdir ''msd_excel_files'',
                  To_excel ''msd_excel_files/100.xlsx''
                    ([''Name'', ''Date of Joining''], [[Some ''Asha Rao'', Some ''01/04/2019'']])]\<rparr>"
  have h: "msd_try ?site [''100'', ''200'']
       (fs_do (Mkdir ''msd_excel_files'')
          (put (Status_update ''Starting Member Service Detail extraction...'') world0)) =
     Some (Inl (PlaywrightError ''Element is not attached to the DOM''),
           [''msd_excel_files/100.xlsx''], ?w)"
    by code_simp
  note t = msd_playwright_error_ends_task[OF h, of "[''300'']"]
  from t have a: "run_msd_extraction ?site [''100'', ''200''] world0 =
      Some (Inr (), ?w\<lparr>result_queue := result_queue ?w
        @ [Error (''An error occurred during MSD extraction: ''
                    @ ''Element is not attached to the DOM'')]\<rparr>)"
    by (rule conjunct1)
  from t have b: "run_msd_extraction ?site ([''100'', ''200''] @ [''300'']) world0 =
      run_msd_extraction ?site [''100'', ''200''] world0"
    by blast
  from b a have "run_msd_extraction ?site ([''100'', ''200''] @ [''300'']) world0 =
      Some (Inr (), ?w\<lparr>result_queue := result_queue ?w
        @ [Error (''An error occurred during MSD extraction: ''
                    @ ''Element is not attached to the DOM'')]\<rparr>)"
    by (rule trans)
  then have c: "run_msd_extraction ?site ([''100'', ''200''] @ [''300'']) world0 =
     Some (Inr (),
           \<lparr>result_queue = [Status_update ''Starting Member Service Detail extraction...'',
                             Status_update ''Navigating to Member Service Details page...'',
                             Status_update ''Processing UAN: 100'',
                             Status_update ''Processing UAN: 200'',
                             Error ''An error occurred during MSD extraction: Element is not attached to the DOM''],
            log = [(INFO, ''Saved service details for UAN 100 to msd_excel_files/100.xlsx'')],
            fs = [Mkdir ''msd_excel_files'',
                  To_excel ''msd_excel_files/100.xlsx''
                    ([''Name'', ''Date of Joining''], [[Some ''Asha Rao'', Some ''01/04/2019'']])]\<rparr>)"
    by simp
  from h c show ?thesis by (rule conjI)
qed

subsection \<open>The header line and the rows\<close>

text \<open>
  C8. On a grid whose first column is the blank row-number column, with the header line
  blank, \<open>Name\<close>, \<open>Date of Joining\<close>, the headers kept are \<open>Date of Joining\<close> alone:
  the blank header is left out by the filter and \<open>Name\<close> by the slice after it, two
  columns instead of one. The body row loses its first cell only, so the table has one
  header for two cells, \<open>DataFrame\<close> raises \<open>ValueError\<close> and the task ends with it,
  nothing written.
\<close>

theorem msd_header_drops_two_columns:
  "msd_headers [[], ''Name'', ''Date of Joining''] = [''Date of Joining'']
   \<and> msd_rows [asha_row] [] = Inr [[''Asha Rao'', ''01/04/2019'']]
   \<and> run_msd_extraction
       (msd_site_of [msd_grid [[], ''Name'', ''Date of Joining''] [asha_row]]) [''100''] world0 =
     Some (Inl (ValueError ''1 columns passed, passed data had 2 columns''),
           \<lparr>result_queue = [Status_update ''Starting Member Service Detail extraction...'',
                             Status_update ''Navigating to Member Service Details page...'',
                             Status_update ''Processing UAN: 100''],
            log = [], fs = [Mkdir ''msd_excel_files'']\<rparr>)"
proof -
  have a: "msd_headers [[], ''Name'', ''Date of Joining''] = [''Date of Joining'']"
    by code_simp
  have b: "msd_rows [asha_row] [] = Inr [[''Asha Rao'', ''01/04/2019'']]"
    by code_simp
  have c: "run_msd_extraction
       (msd_site_of [msd_grid [[], ''Name'', ''Date of Joining''] [asha_row]]) [''100''] world0 =
     Some (Inl (ValueError ''1 columns passed, passed data had 2 columns''),
           \<lparr>result_queue = [Status_update ''Starting Member Service Detail extraction...'',
                             Status_update ''Navigating to Member Service Details page...'',
                             Status_update ''Processing UAN: 100''],
            log = [], fs = [Mkdir ''msd_excel_files'']\<rparr>)"
    by code_simp
  from a b c show ?thesis by blast
qed

subsection \<open>The rows of the table\<close>

text \<open>Every readable row is kept, as the texts of its cells but the first, in order.\<close>

lemma inner_texts_readable:
  "list_all returned cells \<Longrightarrow> inner_texts cells = Inr (map cell_text cells)"
proof (induction cells)
  case Nil
  then show ?case by simp
next
  case (Cons c cells)
  then obtain t where "c = Inr t" by (cases c) auto
  with Cons show ?case by (simp add: cell_text_def)
qed

lemma msd_rows_keeps:
  "list_all readable_row rows \<Longrightarrow>
     msd_rows rows all_rows_data = Inr (all_rows_data @ map row_data rows)"
proof (induction rows arbitrary: all_rows_data)
  case Nil
  then show ?case by simp
next
  case (Cons row rows)
  from Cons.prems obtain cells where r: "row = Inr cells" "list_all returned (drop 1 cells)"
    by (cases row) (auto simp: readable_row_def)
  from Cons.prems have "list_all readable_row rows" by simp
  from Cons.IH[OF this] r inner_texts_readable[OF r(2)] show ?case
    by (simp add: row_data_def)
qed

text \<open>The loop over the pages keeps the rows of all the pages it walks.\<close>

lemma msd_pages_keeps:
  assumes "msd_browsable pages i n"
    and "all_rows_data \<noteq> [] \<or> page_grid_rows (pages i) \<noteq> []"
  shows "msd_pages uan pages i all_rows_data w =
           Some (Inr (all_rows_data @ map row_data (msd_page_rows pages i n)),
                 w\<lparr>result_queue := result_queue w
                      @ replicate n (Status_update (''UAN '' @ uan
                           @ '': Found multiple pages, going to next page...''))\<rparr>)"
  using assms
proof (induction n arbitrary: i all_rows_data w)
  case 0
  from 0(1) obtain rows where g: "grid_rows (pages i) = Inr rows"
    by (cases "grid_rows (pages i)") (auto simp: last_grid_page_def)
  from 0(1) g have k: "msd_rows rows all_rows_data = Inr (all_rows_data @ map row_data rows)"
    by (intro msd_rows_keeps) (simp add: last_grid_page_def page_grid_rows_def)
  from 0(1) obtain cls where c: "next_class (pages i) = Inr cls"
    "contains ''ui-state-disabled'' (case cls of None \<Rightarrow> [] | Some c \<Rightarrow> c)"
    by (cases "next_class (pages i)") (auto simp: last_grid_page_def next_disabled_def)
  from 0(2) g have e: "\<not> (rows = [] \<and> all_rows_data = [])"
    by (auto simp: page_grid_rows_def)
  show ?case
    by (subst msd_pages.simps) (use g k c e in \<open>auto simp: page_grid_rows_def\<close>)
next
  case (Suc n)
  let ?ev = "Status_update (''UAN '' @ uan @ '': Found multiple pages, going to next page...'')"
  from Suc.prems(1) have in_pg: "inner_grid_page (pages i)"
    and rest: "msd_browsable pages (Suc i) n" by simp_all
  from in_pg obtain rows where g: "grid_rows (pages i) = Inr rows"
    by (cases "grid_rows (pages i)") (auto simp: inner_grid_page_def)
  from in_pg g have k: "msd_rows rows all_rows_data = Inr (all_rows_data @ map row_data rows)"
    by (intro msd_rows_keeps) (simp add: inner_grid_page_def page_grid_rows_def)
  from in_pg obtain cls where c: "next_class (pages i) = Inr cls"
    "\<not> contains ''ui-state-disabled'' (case cls of None \<Rightarrow> [] | Some c \<Rightarrow> c)"
    by (cases "next_class (pages i)") (auto simp: inner_grid_page_def next_disabled_def)
  from in_pg obtain u where p: "next_page (pages i) = Inr u"
    by (cases "next_page (pages i)") (auto simp: inner_grid_page_def)
  from Suc.prems(2) g have e: "\<not> (rows = [] \<and> all_rows_data = [])"
    by (auto simp: page_grid_rows_def)
  then have ne: "all_rows_data @ map row_data rows \<noteq> []" by auto
  have step: "msd_pages uan pages i all_rows_data w =
      msd_pages uan pages (Suc i) (all_rows_data @ map row_data rows) (put ?ev w)"
    by (subst msd_pages.simps) (use g k c p e in auto)
  from Suc.IH[OF rest, of "all_rows_data @ map row_data rows" "put ?ev w"] ne
  have "msd_pages uan pages (Suc i) (all_rows_data @ map row_data rows) (put ?ev w) =
      Some (Inr ((all_rows_data @ map row_data rows) @ map row_data (msd_page_rows pages (Suc i) n)),
            (put ?ev w)\<lparr>result_queue := result_queue (put ?ev w) @ replicate n ?ev\<rparr>)"
    by simp
  with step g show ?case by (simp add: put_def page_grid_rows_def)
qed

text \<open>No row is longer than the width that \<open>DataFrame\<close> gives the table.\<close>

lemma foldr_max_ge: "r \<in> set rows \<Longrightarrow> length r \<le> foldr max (map length rows) 0"
  by (induction rows) auto

lemma padded_arity:
  "length headers = foldr max (map length rows) 0 \<Longrightarrow>
     list_all (\<lambda>r. length r = length headers) (map (padded headers) rows)"
  using foldr_max_ge[of _ rows] by (auto simp: list_all_iff padded_def)

text \<open>
  C2, as amended. For a UAN whose search returns, whose header line can be read and whose
  grid can be walked (any number of pages, the first one with at least one row), with
  readable rows: the rows kept are the records of all the rows of all the pages, in order,
  none dropped and nothing logged about them. When the number of headers is the number of
  cells of the longest record, the table is written: its columns are the headers, its rows
  are all the records, each filled up with empty cells to the number of headers, so every
  row of the table has as many cells as there are headers. Otherwise \<open>DataFrame\<close> raises
  \<open>ValueError\<close>: nothing is written for the UAN and the exception leaves the loop.
\<close>

theorem msd_table_arity:
  assumes "submit srch = Inr ()" and "header_texts srch = Inr hs"
    and "msd_browsable (grid_pages srch) 0 n"
    and "page_grid_rows (grid_pages srch 0) \<noteq> []"
  shows "msd_pages uan (grid_pages srch) 0 [] (put (Status_update (''Processing UAN: '' @ uan)) w) =
           Some (Inr (map row_data (msd_page_rows (grid_pages srch) 0 n)), paged uan n w)
       \<and> (length (msd_headers hs) =
            foldr max (map length (map row_data (msd_page_rows (grid_pages srch) 0 n))) 0 \<longrightarrow>
            msd_uan uan srch (generated_files, w) =
              Some (Inr (), generated_files @ [excel_file uan],
                    logging INFO (''Saved service details for UAN '' @ uan @ '' to ''
                                    @ excel_file uan)
                      (fs_do (To_excel (excel_file uan)
                                (msd_headers hs,
                                 map (padded (msd_headers hs))
                                   (map row_data (msd_page_rows (grid_pages srch) 0 n))))
                         (paged uan n w)))
            \<and> list_all (\<lambda>r. length r = length (msd_headers hs))
                (map (padded (msd_headers hs))
                   (map row_data (msd_page_rows (grid_pages srch) 0 n))))
       \<and> (length (msd_headers hs) \<noteq>
            foldr max (map length (map row_data (msd_page_rows (grid_pages srch) 0 n))) 0 \<longrightarrow>
            (\<exists>m. msd_uan uan srch (generated_files, w) =
                   Some (Inl (ValueError m), generated_files, paged uan n w)))"
proof -
  let ?w1 = "put (Status_update (''Processing UAN: '' @ uan)) w"
  let ?data = "map row_data (msd_page_rows (grid_pages srch) 0 n)"
  from assms(4) have ne0: "msd_page_rows (grid_pages srch) 0 n \<noteq> []" by (cases n) auto
  then have ne: "?data \<noteq> []" by simp
  from msd_pages_keeps[OF assms(3), of "[]" uan ?w1] assms(4)
  have p: "msd_pages uan (grid_pages srch) 0 [] ?w1 = Some (Inr ?data, paged uan n w)"
    by (simp add: paged_def put_def)
  have a: "list_all (\<lambda>r. length r = length (msd_headers hs)) (map (padded (msd_headers hs)) ?data)"
    if "length (msd_headers hs) = foldr max (map length ?data) 0"
    using padded_arity[OF that] .
  have b: "msd_uan uan srch (generated_files, w) =
      (case data_frame ?data (msd_headers hs) of
         Inl e \<Rightarrow> Some (Inl e, generated_files, paged uan n w)
       | Inr df \<Rightarrow>
           Some (Inr (), generated_files @ [excel_file uan],
                 logging INFO (''Saved service details for UAN '' @ uan @ '' to ''
                                 @ excel_file uan)
                   (fs_do (To_excel (excel_file uan) df) (paged uan n w))))"
    using assms(1,2) p ne
    by (simp add: msd_uan_def Let_def excel_file_def split: sum.split)
  have c: "data_frame ?data (msd_headers hs) =
      Inr (msd_headers hs, map (padded (msd_headers hs)) ?data)"
    if "length (msd_headers hs) = foldr max (map length ?data) 0"
    using that by (simp add: data_frame_def Let_def padded_def)
  have d: "\<exists>m. data_frame ?data (msd_headers hs) = Inl (ValueError m)"
    if "length (msd_headers hs) \<noteq> foldr max (map length ?data) 0"
    using that by (simp add: data_frame_def Let_def)
  from p a b c d show ?thesis by auto
qed

text \<open>
  A grid of two pages, a full row on the first and a row that has lost its last cell on
  the second: both rows are in the table that is written, the short one filled up.
\<close>

theorem msd_table_arity_witness:
  "submit (msd_two_pages [''No'', ''Name'', ''Date of Joining''] [asha_row] [short_row]) = Inr ()
   \<and> header_texts (msd_two_pages [''No'', ''Name'', ''Date of Joining''] [asha_row] [short_row]) =
       Inr [''No'', ''Name'', ''Date of Joining'']
   \<and> msd_browsable
       (grid_pages (msd_two_pages [''No'', ''Name'', ''Date of Joining''] [asha_row] [short_row])) 0 1
   \<and> page_grid_rows
       (grid_pages (msd_two_pages [''No'', ''Name'', ''Date of Joining''] [asha_row] [short_row]) 0)
       \<noteq> []
   \<and> msd_uan ''100'' (msd_two_pages [''No'', ''Name'', ''Date of Joining''] [asha_row] [short_row])
       ([], world0) =
     Some (Inr (), [''msd_excel_files/100.xlsx''],
           \<lparr>result_queue = [Status_update ''Processing UAN: 100'',
                             Status_update ''UAN 100: Found multiple pages, going to next page...''],
            log = [(INFO, ''Saved service details for UAN 100 to msd_excel_files/100.xlsx'')],
            fs = [To_excel ''msd_excel_files/100.xlsx''
                    ([''Name'', ''Date of Joining''],
                     [[Some ''Asha Rao'', Some ''01/04/2019''], [Some ''Ravi Kumar'', None]])]\<rparr>)"
proof -
  let ?g = "msd_two_pages [''No'', ''Name'', ''Date of Joining''] [asha_row] [short_row]"
  have s: "submit ?g = Inr ()" by (simp add: msd_two_pages_def)
  have h: "header_texts ?g = Inr [''No'', ''Name'', ''Date of Joining'']"
    by (simp add: msd_two_pages_def)
  have b: "msd_browsable (grid_pages ?g) 0 1" by code_simp
  have n: "page_grid_rows (grid_pages ?g 0) \<noteq> []" by code_simp
  have m: "msd_headers [''No'', ''Name'', ''Date of Joining''] = [''Name'', ''Date of Joining'']"
    by code_simp
  have d: "map row_data (msd_page_rows (grid_pages ?g) 0 1) =
      [[''Asha Rao'', ''01/04/2019''], [''Ravi Kumar'']]"
    by code_simp
  have f: "excel_file ''100'' = ''msd_excel_files/100.xlsx''" by code_simp
  have l: "length (msd_headers [''No'', ''Name'', ''Date of Joining'']) =
      foldr max (map length (map row_data (msd_page_rows (grid_pages ?g) 0 1))) 0"
    unfolding d m by simp
  from msd_table_arity[OF s h b n, of "''100''" world0 "[]"] l
  have "msd_uan ''100'' ?g ([], world0) =
      Some (Inr (), [] @ [excel_file ''100''],
            logging INFO (''Saved service details for UAN '' @ ''100'' @ '' to ''
                            @ excel_file ''100'')
              (fs_do (To_excel (excel_file ''100'')
                        (msd_headers [''No'', ''Name'', ''Date of Joining''],
                         map (padded (msd_headers [''No'', ''Name'', ''Date of Joining'']))
                           (map row_data (msd_page_rows (grid_pages ?g) 0 1))))
                 (paged ''100'' 1 world0)))"
    by blast
  then have r: "msd_uan ''100'' ?g ([], world0) =
     Some (Inr (), [''msd_excel_files/100.xlsx''],
           \<lparr>result_queue = [Status_update ''Processing UAN: 100'',
                             Status_update ''UAN 100: Found multiple pages, going to next page...''],
            log = [(INFO, ''Saved service details for UAN 100 to msd_excel_files/100.xlsx'')],
            fs = [To_excel ''msd_excel_files/100.xlsx''
                    ([''Name'', ''Date of Joining''],
                     [[Some ''Asha Rao'', Some ''01/04/2019''], [Some ''Ravi Kumar'', None]])]\<rparr>)"
    unfolding d m f
    by (simp add: logging_def fs_do_def paged_def world0_def padded_def)
  from s h b n r show ?thesis by blast
qed

text \<open>
  The claim as stated fails on a grid with a row of one cell more than the others: the
  row is read like the others, nothing is dropped and nothing is logged, and
  \<open>DataFrame\<close> raises \<open>ValueError\<close>, which is not a \<open>PlaywrightError\<close>: it leaves
  \<open>run_msd_extraction\<close>, and the UAN behind it is not processed.
\<close>

theorem msd_long_row_counterexample:
  "run_msd_extraction
     (msd_site_of [msd_grid [''No'', ''Name'', ''Date of Joining'']
                     [asha_row, Inr [Inr ''2'', Inr ''Ravi Kumar'', Inr ''01/06/2020'', Inr ''x'']]])
     [''100'', ''200''] world0 =
   Some (Inl (ValueError ''2 columns passed, passed data had 3 columns''),
         \<lparr>result_queue = [Status_update ''Starting Member Service Detail extraction...'',
                           Status_update ''Navigating to Member Service Details page...'',
                           Status_update ''Processing UAN: 100''],
          log = [], fs = [Mkdir ''msd_excel_files'']\<rparr>)"
  by code_simp

subsection \<open>A record that cannot be read\<close>

lemma ecr_row_try_raises:
  assumes "ecr_row_try start_date end_date row (files, w) = (Inl e, files', w')"
  shows "files' = files \<and> filter is_error (result_queue w') = filter is_error (result_queue w)"
  using assms
  by (auto simp: ecr_row_try_def Let_def put_def split: sum.splits if_splits)

text \<open>
  C4, as amended. In the UAN lookup a record that cannot be read (\<open>PlaywrightError\<close>) is
  logged and left out, and the loop goes on with the next UAN; when the navigation
  succeeded the task returns normally and puts no error event. In the ECR download a row
  whose processing raises \<open>PlaywrightError\<close> or \<open>ValueError\<close> is logged, no file is
  recorded for it, no error event is put, and the loop goes on with the next row.
\<close>

theorem record_failure_is_skipped:
  "(uan_try uan (lookups i) = Inl m \<longrightarrow>
      uan_loop lookups i (uan # uans) (all_uan_data, w) =
        uan_loop lookups (Suc i) uans
          (all_uan_data,
           logging ERROR (''Could not extract all data for UAN '' @ uan @ '': '' @ m)
             (put (Status_update (''Extracting data for UAN: '' @ uan @ ''...'')) w)))
   \<and> (uan_nav site = Inr () \<longrightarrow>
        fst (run_uan_extraction site uans output_file w) = Inr ()
        \<and> filter is_error (result_queue (snd (run_uan_extraction site uans output_file w))) =
            filter is_error (result_queue w))
   \<and> (ecr_row_try start_date end_date row (files, w) = (Inl e, files', w')
        \<and> (e = PlaywrightError m \<or> e = ValueError m) \<longrightarrow>
        ecr_rows start_date end_date (row # rows) (files, w) =
          ecr_rows start_date end_date rows
            (files, logging ERROR (''Error processing a row: '' @ m) w')
        \<and> filter is_error (result_queue w') = filter is_error (result_queue w))"
proof -
  have a: "uan_try uan (lookups i) = Inl m \<longrightarrow>
      uan_loop lookups i (uan # uans) (all_uan_data, w) =
        uan_loop lookups (Suc i) uans
          (all_uan_data,
           logging ERROR (''Could not extract all data for UAN '' @ uan @ '': '' @ m)
             (put (Status_update (''Extracting data for UAN: '' @ uan @ ''...'')) w))"
    by (simp add: Let_def)
  have b: "fst (run_uan_extraction site uans output_file w) = Inr ()
        \<and> filter is_error (result_queue (snd (run_uan_extraction site uans output_file w))) =
            filter is_error (result_queue w)"
    if n: "uan_nav site = Inr ()"
  proof -
    let ?w1 = "put (Status_update ''Starting UAN extraction...'') w"
    obtain d w2 where l: "uan_loop (uan_lookups site) 0 uans ([], ?w1) = (d, w2)"
      by (cases "uan_loop (uan_lookups site) 0 uans ([], ?w1)")
    from uan_loop_events[of "uan_lookups site" 0 uans "[]" ?w1] l
    have "filter is_error (result_queue w2) = filter is_error (result_queue w)"
      by (simp add: put_def filter_empty_conv)
    with n l show ?thesis
      by (simp add: run_uan_extraction_def Let_def put_def fs_do_def)
  qed
  have c: "ecr_rows start_date end_date (row # rows) (files, w) =
          ecr_rows start_date end_date rows
            (files, logging ERROR (''Error processing a row: '' @ m) w')
        \<and> filter is_error (result_queue w') = filter is_error (result_queue w)"
    if t: "ecr_row_try start_date end_date row (files, w) = (Inl e, files', w')"
      and e: "e = PlaywrightError m \<or> e = ValueError m"
  proof -
    from ecr_row_try_raises[OF t] have f: "files' = files"
      "filter is_error (result_queue w') = filter is_error (result_queue w)" by simp_all
    from t e f show ?thesis by (auto simp: ecr_row_step_def)
  qed
  from a b c show ?thesis by blast
qed

text \<open>
  Two UANs, the search for the first timing out: the table has the record of the second.
  Two rows, the status cell of the first detached: the second is downloaded.
\<close>

theorem record_failure_is_skipped_witness:
  "uan_try ''100'' (timeout_then_found 0) = Inl ''Timeout 2000ms exceeded''
   \<and> uan_loop timeout_then_found 0 [''100'', ''200''] ([], world0) =
       ([[''200'', ''Asha Rao'', ''01/04/2019'', []]],
        \<lparr>result_queue = [Status_update ''Extracting data for UAN: 100...'',
                          Status_update ''Extracting data for UAN: 200...''],
         log = [(ERROR, ''Could not extract all data for UAN 100: Timeout 2000ms exceeded'')],
         fs = []\<rparr>)
   \<and> ecr_row_try jan_2024 mar_2024 detached_status_row ([], world0) =
       (Inl (PlaywrightError ''Element is not attached to the DOM''), [], world0)
   \<and> ecr_rows jan_2024 mar_2024
       [detached_status_row, ecr_row_of ''Feb-2024'' ''Payment Confirmed''] ([], world0) =
       (Inr (), [''ecr_downloads/T1_Feb-2024.pdf''],
        \<lparr>result_queue = [Status_update ''Downloading PDF for T1...''],
         log = [(ERROR, ''Error processing a row: Element is not attached to the DOM'')],
         fs = [Save_as ''ecr_downloads/T1_Feb-2024.pdf'']\<rparr>)"
proof -
  have u: "uan_try ''100'' (timeout_then_found 0) = Inl ''Timeout 2000ms exceeded''"
    by code_simp
  note t = record_failure_is_skipped[where lookups = timeout_then_found and i = 0
      and uan = "''100''" and m = "''Timeout 2000ms exceeded''" and uans = "[''200'']"
      and all_uan_data = "[]" and w = world0]
  from t u have "uan_loop timeout_then_found 0 (''100'' # [''200'']) ([], world0) =
        uan_loop timeout_then_found (Suc 0) [''200'']
          ([], logging ERROR (''Could not extract all data for UAN '' @ ''100'' @ '': ''
                               @ ''Timeout 2000ms exceeded'')
             (put (Status_update (''Extracting data for UAN: '' @ ''100'' @ ''...'')) world0))"
    by blast
  moreover have "uan_loop timeout_then_found (Suc 0) [''200'']
          ([], logging ERROR (''Could not extract all data for UAN '' @ ''100'' @ '': ''
                               @ ''Timeout 2000ms exceeded'')
             (put (Status_update (''Extracting data for UAN: '' @ ''100'' @ ''...'')) world0)) =
       ([[''200'', ''Asha Rao'', ''01/04/2019'', []]],
        \<lparr>result_queue = [Status_update ''Extracting data for UAN: 100...'',
                          Status_update ''Extracting data for UAN: 200...''],
         log = [(ERROR, ''Could not extract all data for UAN 100: Timeout 2000ms exceeded'')],
         fs = []\<rparr>)"
    by code_simp
  ultimately have a: "uan_loop timeout_then_found 0 [''100'', ''200''] ([], world0) =
       ([[''200'', ''Asha Rao'', ''01/04/2019'', []]],
        \<lparr>result_queue = [Status_update ''Extracting data for UAN: 100...'',
                          Status_update ''Extracting data for UAN: 200...''],
         log = [(ERROR, ''Could not extract all data for UAN 100: Timeout 2000ms exceeded'')],
         fs = []\<rparr>)"
    by simp
  have r: "ecr_row_try jan_2024 mar_2024 detached_status_row ([], world0) =
       (Inl (PlaywrightError ''Element is not attached to the DOM''), [], world0)"
    by code_simp
  note t2 = record_failure_is_skipped[where start_date = jan_2024 and end_date = mar_2024
      and row = detached_status_row and files = "[]" and w = world0
      and e = "PlaywrightError ''Element is not attached to the DOM''"
      and files' = "[]" and w' = world0 and m = "''Element is not attached to the DOM''"
      and rows = "[ecr_row_of ''Feb-2024'' ''Payment Confirmed'']"]
  from t2 r have "ecr_rows jan_2024 mar_2024
       (detached_status_row # [ecr_row_of ''Feb-2024'' ''Payment Confirmed'']) ([], world0) =
     ecr_rows jan_2024 mar_2024 [ecr_row_of ''Feb-2024'' ''Payment Confirmed'']
       ([], logging ERROR (''Error processing a row: '' @ ''Element is not attached to the DOM'')
              world0)"
    by blast
  moreover have "ecr_rows jan_2024 mar_2024 [ecr_row_of ''Feb-2024'' ''Payment Confirmed'']
       ([], logging ERROR (''Error processing a row: '' @ ''Element is not attached to the DOM'')
              world0) =
       (Inr (), [''ecr_downloads/T1_Feb-2024.pdf''],
        \<lparr>result_queue = [Status_update ''Downloading PDF for T1...''],
         log = [(ERROR, ''Error processing a row: Element is not attached to the DOM'')],
         fs = [Save_as ''ecr_downloads/T1_Feb-2024.pdf'']\<rparr>)"
    by code_simp
  ultimately have b: "ecr_rows jan_2024 mar_2024
       [detached_status_row, ecr_row_of ''Feb-2024'' ''Payment Confirmed''] ([], world0) =
       (Inr (), [''ecr_downloads/T1_Feb-2024.pdf''],
        \<lparr>result_queue = [Status_update ''Downloading PDF for T1...''],
         log = [(ERROR, ''Error processing a row: Element is not attached to the DOM'')],
         fs = [Save_as ''ecr_downloads/T1_Feb-2024.pdf'']\<rparr>)"
    by simp
  from u a r b show ?thesis by blast
qed

text \<open>
  The claim as stated fails for the member service details: there the rows are read
  inside the one \<open>try\<close> of the task. With a first row whose cell is detached, the second
  row of the UAN and the second UAN are abandoned, nothing is logged, and the failure is
  reported as an error event.
\<close>

theorem msd_row_failure_counterexample:
  "run_msd_extraction
     (msd_site_of [msd_grid [''No'', ''Name'', ''Date of Joining''] [detached_row, asha_row],
                   msd_grid [''No'', ''Name'', ''Date of Joining''] [asha_row]])
     [''100'', ''200''] world0 =
   Some (Inr (),
         \<lparr>result_queue = [Status_update ''Starting Member Service Detail extraction...'',
                           Status_update ''Navigating to Member Service Details page...'',
                           Status_update ''Processing UAN: 100'',
                           Error ''An error occurred during MSD extraction: Element is not attached to the DOM''],
          log = [], fs = [Mkdir ''msd_excel_files'']\<rparr>)"
  by code_simp

end
